theory Spec2Isabelle
  imports Main "HOL-Library.Word"
begin

unbundle bit_operations_syntax

section \<open>The mia1321 sensor driver (drivers/media/i2c/mia1321.c)\<close>

text \<open>
  A shallow embedding of the driver. C integers keep their width: \<open>u8\<close>, \<open>u16\<close> and
  \<open>u32\<close> are words, a C \<open>int\<close> that only carries a return code is an \<open>int\<close>, and a
  signed 32-bit quantity whose wrap-around matters is a \<open>u32\<close> read through \<open>sint\<close>.
  Every call that leaves the driver (I2C, clock, GPIO, regulator, pinctrl, runtime PM, the
  V4L2 control framework, delays) is appended to a trace of events; what such a call
  returns is given by a \<open>kernel\<close> oracle as a function of the trace so far. Diagnostic
  output (\<open>dev_info\<close>, \<open>dev_err\<close>, \<open>dev_warn\<close>, \<open>dev_dbg\<close>) and the mutex are left out.
\<close>

type_synonym u8 = "8 word"
type_synonym u16 = "16 word"
type_synonym u32 = "32 word"

subsection \<open>Constants of the kernel headers\<close>

text \<open>
  Modelled from the spec: the kernel headers are not among the sources of the driver; the
  spec names these constants only, and the values are those of the Linux 5.10 headers
  (\<open>errno-base.h\<close>, \<open>errno.h\<close>, \<open>media-bus-format.h\<close>, \<open>v4l2-mediabus.h\<close>,
  \<open>videodev2.h\<close>, \<open>v4l2-subdev.h\<close>, \<open>rk-camera-module.h\<close>).
\<close>

definition EIO :: int where "EIO = 5"
definition ENODEV :: int where "ENODEV = 19"
definition EINVAL :: int where "EINVAL = 22"
definition ENOTTY :: int where "ENOTTY = 25"
definition ENOIOCTLCMD :: int where "ENOIOCTLCMD = 515"

definition MEDIA_BUS_FMT_SGRBG10_1X10 :: u32 where "MEDIA_BUS_FMT_SGRBG10_1X10 = 0x300a"
definition MEDIA_BUS_FMT_SGRBG12_1X12 :: u32 where "MEDIA_BUS_FMT_SGRBG12_1X12 = 0x3011"

definition V4L2_MBUS_CSI2_CHANNEL_0 :: u32 where "V4L2_MBUS_CSI2_CHANNEL_0 = push_bit 4 1"
definition V4L2_MBUS_CSI2_CHANNEL_1 :: u32 where "V4L2_MBUS_CSI2_CHANNEL_1 = push_bit 5 1"
definition V4L2_MBUS_CSI2_CHANNEL_2 :: u32 where "V4L2_MBUS_CSI2_CHANNEL_2 = push_bit 6 1"
definition V4L2_MBUS_CSI2_CONTINUOUS_CLOCK :: u32 where
  "V4L2_MBUS_CSI2_CONTINUOUS_CLOCK = push_bit 8 1"

datatype v4l2_mbus_type = V4L2_MBUS_UNKNOWN | V4L2_MBUS_CSI2_DPHY

definition V4L2_FIELD_NONE :: u32 where "V4L2_FIELD_NONE = 1"
definition V4L2_SUBDEV_FORMAT_TRY :: u32 where "V4L2_SUBDEV_FORMAT_TRY = 0"
definition V4L2_SUBDEV_FORMAT_ACTIVE :: u32 where "V4L2_SUBDEV_FORMAT_ACTIVE = 1"

definition NO_HDR :: u32 where "NO_HDR = 0"
definition HDR_X2 :: u32 where "HDR_X2 = 5"
definition HDR_X3 :: u32 where "HDR_X3 = 6"
definition HDR_NORMAL_VC :: u32 where "HDR_NORMAL_VC = 0"
definition PAD0 :: nat where "PAD0 = 0"
definition PAD_MAX :: nat where "PAD_MAX = 4"
definition RKMODULE_NAME_LEN :: nat where "RKMODULE_NAME_LEN = 32"

subsection \<open>Constants of the driver\<close>

definition MIA1321_LANES :: nat where "MIA1321_LANES = 2"
definition MIA1321_XVCLK_FREQ :: nat where "MIA1321_XVCLK_FREQ = 26000000"

definition CHIP_ID :: u32 where "CHIP_ID = 0x0400"
definition MIA1321_REG_CHIP_ID :: u16 where "MIA1321_REG_CHIP_ID = 0x0011"

definition MIA1321_REG_CTRL_MODE :: u16 where "MIA1321_REG_CTRL_MODE = 0x0126"
definition MIA1321_MODE_SW_STANDBY :: u32 where "MIA1321_MODE_SW_STANDBY = push_bit 0 1"
definition MIA1321_MODE_STREAMING :: u32 where "MIA1321_MODE_STREAMING = 0x0"

definition MIA1321_REG_EXPOSURE_H :: u16 where "MIA1321_REG_EXPOSURE_H = 0x00cf"
definition MIA1321_REG_EXPOSURE_M :: u16 where "MIA1321_REG_EXPOSURE_M = 0x00ce"
definition MIA1321_REG_EXPOSURE_L :: u16 where "MIA1321_REG_EXPOSURE_L = 0x00cd"

definition MIA1321_FETCH_EXP_H :: "u32 \<Rightarrow> u32" where
  "MIA1321_FETCH_EXP_H v = drop_bit 16 v AND 0xFF"
definition MIA1321_FETCH_EXP_M :: "u32 \<Rightarrow> u32" where
  "MIA1321_FETCH_EXP_M v = drop_bit 8 v AND 0xFF"
definition MIA1321_FETCH_EXP_L :: "u32 \<Rightarrow> u32" where
  "MIA1321_FETCH_EXP_L v = v AND 0xFF"

definition MIA1321_REG_ANA_GAIN_H :: u16 where "MIA1321_REG_ANA_GAIN_H = 0x001b"
definition MIA1321_REG_ANA_GAIN_M :: u16 where "MIA1321_REG_ANA_GAIN_M = 0x0019"
definition MIA1321_REG_ANA_GAIN_L :: u16 where "MIA1321_REG_ANA_GAIN_L = 0x0018"

definition MIA1321_ONCE_GAIN_STEP :: u32 where "MIA1321_ONCE_GAIN_STEP = 0x5dc"
definition MIA1321_GAIN_MIN :: u32 where "MIA1321_GAIN_MIN = MIA1321_ONCE_GAIN_STEP"
definition MIA1321_AGAIN_MAX :: u32 where "MIA1321_AGAIN_MAX = MIA1321_ONCE_GAIN_STEP * 32"
definition MIA1321_GAIN_MAX :: u32 where "MIA1321_GAIN_MAX = MIA1321_AGAIN_MAX * 1"

definition MIA1321_VTS_MAX :: u32 where "MIA1321_VTS_MAX = 0xffff"

definition MIA1321_MIRROR_REG :: u16 where "MIA1321_MIRROR_REG = 0x009a"
definition MIA1321_FLIP_REG :: u16 where "MIA1321_FLIP_REG = 0x0099"
definition MIRROR_BIT_MASK :: u32 where "MIRROR_BIT_MASK = push_bit 0 1"
definition FLIP_BIT_MASK :: u32 where "FLIP_BIT_MASK = push_bit 1 1"

definition REG_DELAY :: u16 where "REG_DELAY = 0xFFFE"
definition REG_NULL :: u16 where "REG_NULL = 0xFFFF"

definition MIA1321_REG_VALUE_08BIT :: nat where "MIA1321_REG_VALUE_08BIT = 1"
definition MIA1321_REG_VALUE_16BIT :: nat where "MIA1321_REG_VALUE_16BIT = 2"
definition MIA1321_REG_VALUE_24BIT :: nat where "MIA1321_REG_VALUE_24BIT = 3"

definition MIA1321_NAME :: string where "MIA1321_NAME = ''mia1321''"

definition mia1321_supply_names :: "string list" where
  "mia1321_supply_names = [''avdd'', ''dovdd'', ''dvdd'']"

definition MIA1321_NUM_SUPPLIES :: nat where
  "MIA1321_NUM_SUPPLIES = length mia1321_supply_names"

subsection \<open>Register tables and modes\<close>

record regval =
  addr :: u16
  val :: u8

record v4l2_fract =
  numerator :: u32
  denominator :: u32

record mia1321_mode =
  bus_fmt :: u32
  width :: u32
  height :: u32
  max_fps :: v4l2_fract
  hts_def :: u32
  vts_def :: u32
  exp_def :: u32
  reg_list :: "regval list"
  hdr_mode :: u32
  vc :: "u32 list"

definition mia1321_global_regs :: "regval list" where
  "mia1321_global_regs = map (\<lambda>(a, v). \<lparr>addr = a, val = v\<rparr>)
    [(REG_NULL, 0x00)]"

definition mia1321_linear_60_1280x1080_regs :: "regval list" where
  "mia1321_linear_60_1280x1080_regs = map (\<lambda>(a, v). \<lparr>addr = a, val = v\<rparr>)
    [(0x011d, 0x00), (0x011f, 0x00), (0x012e, 0x02), (0x012b, 0x01), (0x00bd, 0x00), (0x00bc, 0x01),
     (0x00bf, 0x00), (0x00c0, 0x00), (0x00cd, 0x01), (0x00ce, 0x01), (0x00cf, 0x00), (0x00e1, 0x00),
     (0x011c, 0x00), (0x0120, 0x00), (0x0125, 0x00), (0x003c, 0x01), (0x003d, 0x03), (0x1201, 0xf0),
     (0x1051, 0x1e), (0x1202, 0x70), (0x1203, 0x10), (0x1070, 0x02), (0x1205, 0x00), (0x1208, 0x01),
     (0x1000, 0x16), (0x1024, 0x00), (0x1025, 0x05), (0x1026, 0x38), (0x1027, 0x04), (0x1020, 0x2a),
     (0x1042, 0x03), (0x0010, 0x05), (0x0012, 0x01), (0x0043, 0x03), (0x003f, 0x3f), (0x0041, 0xff),
     (0x009a, 0x01), (0x0099, 0x01), (0x00ca, 0x01), (0x00e1, 0x00), (0x00e2, 0x00), (0x0030, 0xc0),
     (0x012c, 0x01), (0x004a, 0x01), (0x004b, 0x90), (0x004c, 0x03), (0x004e, 0x01), (0x0051, 0x03),
     (0x0053, 0x03), (0x00d0, 0x9a), (0x00d1, 0x02), (0x00df, 0x42), (0x01c9, 0x9a), (0x01ca, 0x02),
     (0x0043, 0x01), (0x02fd, 0x58), (0x02fe, 0x42), (0x031f, 0xb0), (0x0320, 0x04), (0x0305, 0x08),
     (0x0306, 0x87), (0x0307, 0xfc), (0x0308, 0x08), (0x0317, 0x80), (0x0318, 0x0c), (0x030f, 0xfa),
     (0x0310, 0x0f), (0x02ff, 0xfa), (0x0300, 0x8f), (0x0309, 0xfa), (0x030a, 0x8f), (0x00ce, 0x03),
     (0x1000, 0x06), (0x1018, 0x01), (0x1018, 0x00), (0x012a, 0x01), (0x012a, 0x00), (0x00ce, 0x00),
     (0x00cd, 0x01), (0x012a, 0x01), (0x012a, 0x00), (REG_NULL, 0x00)]"

definition mia1321_linear_120_1280x1080_regs :: "regval list" where
  "mia1321_linear_120_1280x1080_regs = map (\<lambda>(a, v). \<lparr>addr = a, val = v\<rparr>)
    [(0x011d, 0x00), (0x011f, 0x00), (0x012e, 0x02), (0x012b, 0x01), (0x00bd, 0x00), (0x00bc, 0x01),
     (0x00bf, 0x00), (0x00c0, 0x00), (0x00cd, 0x01), (0x00ce, 0x01), (0x00cf, 0x00), (0x00e1, 0x00),
     (0x011c, 0x00), (0x0120, 0x00), (0x0125, 0x00), (0x003c, 0x01), (0x003d, 0x03), (0x1201, 0xf0),
     (0x1051, 0x1e), (0x1202, 0x70), (0x1203, 0x10), (0x1070, 0x02), (0x1205, 0x00), (0x1208, 0x01),
     (0x1000, 0x16), (0x1024, 0x00), (0x1025, 0x05), (0x1026, 0x38), (0x1027, 0x04), (0x1020, 0x2a),
     (0x1042, 0x03), (0x0010, 0x05), (0x0012, 0x01), (0x0043, 0x03), (0x003f, 0x3f), (0x0041, 0xff),
     (0x00ca, 0x01), (0x00e1, 0x00), (0x00e2, 0x00), (0x0030, 0xc0), (0x012c, 0x01), (0x004a, 0x01),
     (0x004b, 0xd8), (0x004c, 0x02), (0x004e, 0x01), (0x0051, 0x02), (0x0053, 0x02), (0x00d0, 0x9a),
     (0x00d1, 0x02), (0x00df, 0x42), (0x01c9, 0x9a), (0x01ca, 0x02), (0x0043, 0x01), (0x02fd, 0x58),
     (0x02fe, 0x42), (0x031f, 0xb0), (0x0320, 0x04), (0x0305, 0x08), (0x0306, 0x87), (0x0307, 0xfc),
     (0x0308, 0x08), (0x0317, 0x80), (0x0318, 0x0c), (0x030f, 0xfa), (0x0310, 0x0f), (0x02ff, 0xfa),
     (0x0300, 0x8f), (0x0309, 0xfa), (0x030a, 0x8f), (0x00ce, 0x03), (0x1000, 0x06), (0x1018, 0x01),
     (0x1018, 0x00), (0x012a, 0x01), (0x012a, 0x00), (0x00ce, 0x00), (0x00cd, 0x01), (0x012a, 0x01),
     (0x012a, 0x00), (REG_NULL, 0x00)]"

definition mia1321_linear_10_1280x720_regs :: "regval list" where
  "mia1321_linear_10_1280x720_regs = map (\<lambda>(a, v). \<lparr>addr = a, val = v\<rparr>)
    [(0x011d, 0x01), (0x011f, 0x00), (0x012e, 0x02), (0x012b, 0x01), (0x00bd, 0x00), (0x00bc, 0x01),
     (0x00bf, 0x05), (0x00c0, 0x00), (0x00cd, 0x01), (0x00ce, 0x01), (0x00cf, 0x00), (0x00e1, 0x00),
     (0x011c, 0x00), (0x0120, 0x00), (0x0125, 0x00), (0x003c, 0x01), (0x003d, 0x03), (0x1201, 0xf0),
     (0x1051, 0x1e), (0x1202, 0x70), (0x1203, 0x10), (0x1070, 0x02), (0x1205, 0x00), (0x1208, 0x01),
     (0x1000, 0x16), (0x1024, 0x00), (0x1025, 0x05), (0x1026, 0x38), (0x1027, 0x04), (0x1020, 0x2a),
     (0x1042, 0x03), (0x0010, 0x05), (0x0012, 0x01), (0x0043, 0x03), (0x003f, 0x3f), (0x0041, 0xff),
     (0x00ca, 0x01), (0x00e1, 0x00), (0x00e2, 0x00), (0x0030, 0xc0), (0x012c, 0x01), (0x004a, 0x01),
     (0x004b, 0x60), (0x00d0, 0x9a), (0x00d1, 0x02), (0x00df, 0x42), (0x01c9, 0x9a), (0x01ca, 0x02),
     (0x0043, 0x01), (0x02fd, 0x58), (0x02fe, 0x42), (0x031f, 0xb0), (0x0320, 0x04), (0x0305, 0x08),
     (0x0306, 0x87), (0x0307, 0xfc), (0x0308, 0x08), (0x0317, 0x80), (0x0318, 0x0c), (0x030f, 0xfa),
     (0x0310, 0x0f), (0x02ff, 0xfa), (0x0300, 0x8f), (0x0309, 0xfa), (0x030a, 0x8f), (0x00ce, 0x03),
     (0x1000, 0x06), (0x1018, 0x01), (0x1018, 0x00), (0x012a, 0x01), (0x012a, 0x00), (0x00ce, 0x00),
     (0x00cd, 0x01), (0x012a, 0x01), (0x012a, 0x00), (REG_NULL, 0x00)]"

text \<open>
  Fields of \<open>vc\<close> that the initialiser does not name are zero; \<open>PAD_MAX\<close> is 4.
\<close>

definition supported_modes :: "mia1321_mode list" where
  "supported_modes =
    [\<lparr>bus_fmt = MEDIA_BUS_FMT_SGRBG10_1X10, width = 1280, height = 1080,
      max_fps = \<lparr>numerator = 10000, denominator = 600000\<rparr>,
      hts_def = 0x0a68, vts_def = 0x04b0, exp_def = 0x01f4,
      reg_list = mia1321_linear_60_1280x1080_regs,
      hdr_mode = NO_HDR, vc = [V4L2_MBUS_CSI2_CHANNEL_0, 0, 0, 0]\<rparr>,
     \<lparr>bus_fmt = MEDIA_BUS_FMT_SGRBG10_1X10, width = 1280, height = 1080,
      max_fps = \<lparr>numerator = 10000, denominator = 1170000\<rparr>,
      hts_def = 0x0a68, vts_def = 0x04b0, exp_def = 0x01f4,
      reg_list = mia1321_linear_120_1280x1080_regs,
      hdr_mode = NO_HDR, vc = [V4L2_MBUS_CSI2_CHANNEL_0, 0, 0, 0]\<rparr>,
     \<lparr>bus_fmt = MEDIA_BUS_FMT_SGRBG12_1X12, width = 1280, height = 1080,
      max_fps = \<lparr>numerator = 10000, denominator = 300000\<rparr>,
      hts_def = 0x0a68, vts_def = 0x04b0, exp_def = 0x0052,
      reg_list = mia1321_linear_10_1280x720_regs,
      hdr_mode = NO_HDR, vc = [V4L2_MBUS_CSI2_CHANNEL_0, 0, 0, 0]\<rparr>]"

subsection \<open>Frame size enumeration\<close>

record v4l2_subdev_frame_size_enum =
  fse_index :: u32
  fse_code :: u32
  min_width :: u32
  max_width :: u32
  min_height :: u32
  max_height :: u32

definition mia1321_enum_frame_sizes ::
  "v4l2_subdev_frame_size_enum \<Rightarrow> int \<times> v4l2_subdev_frame_size_enum" where
  "mia1321_enum_frame_sizes fse =
    (if unat (fse_index fse) \<ge> length supported_modes then (- EINVAL, fse)
     else if fse_code fse \<noteq> bus_fmt (supported_modes ! 0) then (- EINVAL, fse)
     else (0, fse\<lparr>min_width := width (supported_modes ! unat (fse_index fse)),
                   max_width := width (supported_modes ! unat (fse_index fse)),
                   max_height := height (supported_modes ! unat (fse_index fse)),
                   min_height := height (supported_modes ! unat (fse_index fse))\<rparr>))"

subsection \<open>The driver's state and the world outside it\<close>

text \<open>
  \<open>struct mia1321\<close>. A handle obtained at probe time (pin state, GPIO descriptor) is
  kept as the outcome of the test the driver makes on it: \<open>pins_default_valid\<close> is
  \<open>!IS_ERR_OR_NULL(pins_default)\<close>, \<open>reset_gpio_valid\<close> is \<open>!IS_ERR(reset_gpio)\<close>.
  \<open>cur_mode\<close> points into the constant table \<open>supported_modes\<close>; the model keeps the
  entry pointed to. The member \<open>module_name\<close> is \<open>mod_name\<close> here, the former being
  a reserved word.
\<close>

record mia1321 =
  supplies :: "string list"
  pins_default_valid :: bool
  pins_sleep_valid :: bool
  reset_gpio_valid :: bool
  pwdn_gpio_valid :: bool
  streaming :: bool
  power_on :: bool
  cur_mode :: mia1321_mode
  cur_fps :: v4l2_fract
  module_index :: u32
  module_facing :: string
  mod_name :: string
  len_name :: string
  cur_vts :: u32
  is_thunderboot :: bool
  is_first_streamoff :: bool
  is_mirror :: bool
  is_flip :: bool

datatype gpio_line = Reset_gpio | Pwdn_gpio

datatype pin_state = Pins_default | Pins_sleep

datatype ctrl_handle = Exposure_ctrl | Hblank_ctrl | Vblank_ctrl

text \<open>
  One constructor for each kernel service the modelled functions call, with the
  arguments of the call. \<open>I2c_transfer reg len\<close> is the two-message transfer of
  \<open>mia1321_read_reg\<close>: the big-endian register address written, \<open>len\<close> bytes read.
\<close>

datatype event =
    I2c_master_send "u8 list"
  | I2c_transfer u16 nat
  | Mdelay nat
  | Usleep_range nat nat
  | Pinctrl_select_state pin_state
  | Clk_set_rate nat
  | Clk_get_rate
  | Clk_prepare_enable
  | Clk_disable_unprepare
  | Gpiod_set_value_cansleep gpio_line nat
  | Devm_regulator_bulk_get nat "string list"
  | Regulator_bulk_enable nat "string list"
  | V4l2_ctrl_modify_range ctrl_handle int int int int
  | V4l2_ctrl_handler_setup
  | Pm_runtime_get_if_in_use
  | Pm_runtime_put

record world =
  drv :: mia1321
  trace :: "event list"

text \<open>
  The kernel side. \<open>ret_of\<close> is the value a call returns after the given history,
  \<open>i2c_rx\<close> the bytes the sensor delivers to a read, the three \<open>ctrl_\<close> fields the
  members of a \<open>struct v4l2_ctrl\<close> owned by the control framework.
  \<open>__v4l2_ctrl_handler_setup\<close> calls back into the driver for every control;
  \<open>handler_setup_effect\<close> is whatever those callbacks do to the driver state and the
  trace. \<open>__v4l2_ctrl_modify_range\<close> calls back too: when the value of the control does
  not fit its new range the framework moves it and calls the \<open>s_ctrl\<close> operation the
  control was registered with, which for the exposure and the vertical-blanking control
  is \<open>mia1321_set_ctrl\<close> itself; \<open>modify_range_effect\<close> is whatever that does to the
  driver state and the trace, the identity when no callback is made.
  \<open>CONFIG_VIDEO_V4L2_SUBDEV_API\<close> is the build option the driver tests with \<open>#ifdef\<close>.
\<close>

record kernel =
  ret_of :: "event list \<Rightarrow> event \<Rightarrow> int"
  i2c_rx :: "event list \<Rightarrow> u16 \<Rightarrow> nat \<Rightarrow> u8 list"
  ctrl_minimum :: "event list \<Rightarrow> ctrl_handle \<Rightarrow> int"
  ctrl_step :: "event list \<Rightarrow> ctrl_handle \<Rightarrow> int"
  ctrl_default_value :: "event list \<Rightarrow> ctrl_handle \<Rightarrow> int"
  handler_setup_effect :: "world \<Rightarrow> world"
  modify_range_effect :: "world \<Rightarrow> world"
  CONFIG_VIDEO_V4L2_SUBDEV_API :: bool

definition emit :: "event \<Rightarrow> world \<Rightarrow> world" where
  "emit e w = w\<lparr>trace := trace w @ [e]\<rparr>"

definition call :: "kernel \<Rightarrow> event \<Rightarrow> world \<Rightarrow> int \<times> world" where
  "call K e w = (ret_of K (trace w) e, emit e w)"

definition v4l2_ctrl_handler_setup :: "kernel \<Rightarrow> world \<Rightarrow> int \<times> world" where
  "v4l2_ctrl_handler_setup K w =
    (ret_of K (trace w) V4l2_ctrl_handler_setup,
     handler_setup_effect K (emit V4l2_ctrl_handler_setup w))"

text \<open>
  \<open>__v4l2_ctrl_modify_range\<close>: the call with its arguments goes on the trace, then the
  framework does what it does with it. The driver ignores the value returned.
\<close>

definition v4l2_ctrl_modify_range ::
  "kernel \<Rightarrow> ctrl_handle \<Rightarrow> int \<Rightarrow> int \<Rightarrow> int \<Rightarrow> int \<Rightarrow> world \<Rightarrow> world" where
  "v4l2_ctrl_modify_range K c minimum maximum step def w =
    modify_range_effect K (emit (V4l2_ctrl_modify_range c minimum maximum step def) w)"

subsection \<open>Register access over I2C\<close>

text \<open>
  Modelled from the spec: \<open>cpu_to_be32\<close> and \<open>be32_to_cpu\<close> are kernel helpers, absent
  from the driver file and from the spec; they are taken as the kernel defines them, the
  four bytes of a 32-bit value with the most significant byte first.
\<close>

definition cpu_to_be32 :: "u32 \<Rightarrow> u8 list" where
  "cpu_to_be32 v = [ucast (drop_bit 24 v), ucast (drop_bit 16 v), ucast (drop_bit 8 v), ucast v]"

definition be32_to_cpu :: "u8 list \<Rightarrow> u32" where
  "be32_to_cpu bs = foldl (\<lambda>a b. push_bit 8 a OR ucast b) 0 bs"

text \<open>
  \<open>mia1321_write_reg\<close>: the buffer is the register address, high byte first, followed
  by the last \<open>len\<close> bytes of the big-endian value.
\<close>

definition mia1321_write_reg :: "kernel \<Rightarrow> u16 \<Rightarrow> nat \<Rightarrow> u32 \<Rightarrow> world \<Rightarrow> int \<times> world" where
  "mia1321_write_reg K reg len v w =
    (if len > 4 then (- EINVAL, w)
     else
       let buf = [ucast (drop_bit 8 reg), ucast (reg AND 0xff)] @ drop (4 - len) (cpu_to_be32 v);
           (n, w') = call K (I2c_master_send buf) w
       in if n \<noteq> int (len + 2) then (- EIO, w') else (0, w'))"

text \<open>
  \<open>mia1321_write_array\<close>. The C loop reads \<open>regs[i]\<close> until it meets \<open>REG_NULL\<close>; a
  table without that entry is read past its end, which is the result \<open>None\<close>.
  \<open>ret\<close> is the loop variable of the source, tested before each entry.
\<close>

fun write_array_loop :: "kernel \<Rightarrow> int \<Rightarrow> regval list \<Rightarrow> world \<Rightarrow> int option \<times> world" where
  "write_array_loop K ret [] w = (if ret = 0 then (None, w) else (Some ret, w))"
| "write_array_loop K ret (r # regs) w =
    (if ret = 0 \<and> addr r \<noteq> REG_NULL then
       (if addr r = REG_DELAY then write_array_loop K ret regs (emit (Mdelay (unat (val r))) w)
        else
          (case mia1321_write_reg K (addr r) MIA1321_REG_VALUE_08BIT (ucast (val r)) w of
             (ret', w') \<Rightarrow> write_array_loop K ret' regs w'))
     else (Some ret, w))"

definition mia1321_write_array :: "kernel \<Rightarrow> regval list \<Rightarrow> world \<Rightarrow> int option \<times> world" where
  "mia1321_write_array K regs w = write_array_loop K 0 regs w"

text \<open>
  \<open>mia1321_read_reg\<close>. The third argument is the content of \<open>*val\<close> before the call,
  which is what it still holds when the function fails. The bytes read fill the low end
  of a zeroed big-endian word.
\<close>

definition mia1321_read_reg ::
  "kernel \<Rightarrow> u16 \<Rightarrow> nat \<Rightarrow> u32 \<Rightarrow> world \<Rightarrow> int \<times> u32 \<times> world" where
  "mia1321_read_reg K reg len v w =
    (if len > 4 \<or> len = 0 then (- EINVAL, v, w)
     else
       let data = take len (i2c_rx K (trace w) reg len @ replicate len 0);
           (ret, w') = call K (I2c_transfer reg len) w
       in if ret \<noteq> 2 then (- EIO, v, w')
          else (0, be32_to_cpu (replicate (4 - len) 0 @ data), w'))"

definition orientation_case :: "kernel \<Rightarrow> bool \<Rightarrow> bool \<Rightarrow> u32 \<Rightarrow> u32 \<Rightarrow> world \<Rightarrow> world" where
  "orientation_case K flip mirror flip_val mirror_val w =
    (let w1 = w\<lparr>drv := (drv w)\<lparr>is_flip := flip, is_mirror := mirror\<rparr>\<rparr>;
         (r1, w2) = mia1321_write_reg K MIA1321_FLIP_REG MIA1321_REG_VALUE_08BIT flip_val w1;
         (r2, w3) = mia1321_write_reg K MIA1321_MIRROR_REG MIA1321_REG_VALUE_08BIT mirror_val w2
     in w3)"

definition mia1321_set_orientation_reg :: "kernel \<Rightarrow> u32 \<Rightarrow> world \<Rightarrow> world" where
  "mia1321_set_orientation_reg K en_flip_mir w =
    (if en_flip_mir = 0 then orientation_case K False False 0x00 0x00 w
     else if en_flip_mir = 1 then orientation_case K False True 0x00 0x01 w
     else if en_flip_mir = 2 then orientation_case K True False 0x01 0x00 w
     else if en_flip_mir = 3 then orientation_case K True True 0x01 0x01 w
     else orientation_case K False False 0x00 0x00 w)"

subsection \<open>Analogue gain\<close>

record s_again =
  again :: u32
  reg_0018 :: u32
  reg_0019 :: u32
  reg_001b :: u32

definition mia1321_again :: "s_again list" where
  "mia1321_again =
    map (\<lambda>(g, r18, r19, r1b). \<lparr>again = g, reg_0018 = r18, reg_0019 = r19, reg_001b = r1b\<rparr>)
    [(800, 0x0, 0x0, 0x1f), (1000, 0x4, 0x0, 0x1f), (1250, 0x9, 0x0, 0x1f),
     (1500, 0xe, 0x0, 0x1f), (1750, 0x13, 0x0, 0x2b), (2200, 0x1c, 0x0, 0x2b),
     (2450, 0x21, 0x0, 0x2b), (2700, 0x26, 0x0, 0x2b), (2950, 0x2b, 0x0, 0x2b),
     (3400, 0x34, 0x0, 0x30), (3650, 0x39, 0x0, 0x30), (3900, 0x3e, 0x0, 0x30),
     (4150, 0x43, 0x0, 0x30), (4600, 0x4c, 0x0, 0x30), (4850, 0x51, 0x0, 0x30),
     (5100, 0x56, 0x0, 0x30), (5350, 0x5b, 0x0, 0x30), (5800, 0x64, 0x0, 0x30),
     (6050, 0x69, 0x0, 0x30), (6300, 0x6e, 0x0, 0x30), (6550, 0x73, 0x0, 0x32),
     (7000, 0x7c, 0x0, 0x32), (7800, 0xbe, 0x0, 0x32), (8800, 0xc8, 0x0, 0x32),
     (9800, 0xd2, 0x0, 0x32), (10800, 0xdc, 0x0, 0x32), (12600, 0xee, 0x0, 0x32),
     (13600, 0xf8, 0x0, 0x32), (14600, 0x39, 0x1, 0x32), (15600, 0x3e, 0x1, 0x32),
     (17400, 0x47, 0x1, 0x32), (18400, 0x4c, 0x1, 0x32), (19400, 0x51, 0x1, 0x32),
     (20400, 0x56, 0x1, 0x32), (22200, 0x5f, 0x1, 0x32), (23200, 0x64, 0x1, 0x32),
     (24200, 0x69, 0x1, 0x32), (25200, 0x6e, 0x1, 0x32), (25600, 0x70, 0x1, 0x32)]"

text \<open>
  The \<open>while\<close> loop of \<open>mia1321_set_gain_reg\<close> over the entries not yet visited. The
  triple is \<open>(gain_0x001b, gain_0x0019, gain_0x0018)\<close>; leaving the loop without a
  \<open>break\<close> keeps the values the variables were initialised with.
\<close>

fun set_gain_loop :: "u32 \<Rightarrow> s_again list \<Rightarrow> u8 \<times> u8 \<times> u8 \<Rightarrow> u8 \<times> u8 \<times> u8" where
  "set_gain_loop gain [] regs = regs"
| "set_gain_loop gain (e # es) regs =
    (if gain \<le> again e then (ucast (reg_001b e), ucast (reg_0019 e), ucast (reg_0018 e))
     else if gain \<ge> MIA1321_GAIN_MAX - 1 then (0x32, 1, 0x70)
     else set_gain_loop gain es regs)"

definition clamp_gain :: "u32 \<Rightarrow> u32" where
  "clamp_gain gain =
    (let gain1 = (if gain \<le> MIA1321_GAIN_MIN then MIA1321_GAIN_MIN else gain)
     in if gain1 > MIA1321_GAIN_MAX - 1 then MIA1321_GAIN_MAX - 1 else gain1)"

definition mia1321_set_gain_reg :: "kernel \<Rightarrow> u32 \<Rightarrow> world \<Rightarrow> int \<times> world" where
  "mia1321_set_gain_reg K gain w =
    (let (gain_0x001b, gain_0x0019, gain_0x0018) =
           set_gain_loop (clamp_gain gain) mia1321_again (0x1f, 0x00, 0x00);
         (r1, w1) = mia1321_write_reg K MIA1321_REG_ANA_GAIN_H MIA1321_REG_VALUE_08BIT
                      (ucast gain_0x001b) w;
         (r2, w2) = mia1321_write_reg K MIA1321_REG_ANA_GAIN_M MIA1321_REG_VALUE_08BIT
                      (ucast gain_0x0019) w1;
         (r3, w3) = mia1321_write_reg K MIA1321_REG_ANA_GAIN_L MIA1321_REG_VALUE_08BIT
                      (ucast gain_0x0018) w2
     in (((0 OR r1) OR r2) OR r3, w3))"

subsection \<open>Format negotiation\<close>

record v4l2_mbus_framefmt =
  fmt_width :: u32
  fmt_height :: u32
  fmt_code :: u32
  fmt_field :: u32

record v4l2_subdev_format =
  which :: u32
  pad :: u32
  format :: v4l2_mbus_framefmt

text \<open>The try format of each pad, which \<open>v4l2_subdev_get_try_format\<close> points to.\<close>

type_synonym v4l2_subdev_pad_config = "u32 \<Rightarrow> v4l2_mbus_framefmt"

text \<open>
  Modelled from the spec: the macro \<open>abs\<close> is not defined in the driver; the spec writes
  the distance with absolute values, and the model takes the macro as the kernel defines
  it (\<open>include/linux/kernel.h\<close>): an operand of type \<open>unsigned int\<close> is converted to
  \<open>int\<close> and a negative value is negated. The kernel is built with wrapping signed
  arithmetic, so the most negative value is its own negation. The result is an \<open>int\<close>,
  kept as its bit pattern.
\<close>

definition abs_int :: "u32 \<Rightarrow> u32" where
  "abs_int x = (if sint x < 0 then - x else x)"

definition mia1321_get_reso_dist :: "mia1321_mode \<Rightarrow> v4l2_mbus_framefmt \<Rightarrow> u32" where
  "mia1321_get_reso_dist mode framefmt =
    abs_int (width mode - fmt_width framefmt) + abs_int (height mode - fmt_height framefmt)"

text \<open>
  The \<open>for\<close> loop of \<open>mia1321_find_best_fit\<close> over the modes from index \<open>i\<close> on; the
  pair is \<open>(cur_best_fit, cur_best_fit_dist)\<close>, the distances are compared as \<open>int\<close>.
\<close>

fun find_best_fit_loop ::
  "v4l2_mbus_framefmt \<Rightarrow> mia1321_mode list \<Rightarrow> nat \<Rightarrow> nat \<times> u32 \<Rightarrow> nat \<times> u32" where
  "find_best_fit_loop framefmt [] i best = best"
| "find_best_fit_loop framefmt (m # ms) i (cur_best_fit, cur_best_fit_dist) =
    (let dist = mia1321_get_reso_dist m framefmt
     in if cur_best_fit_dist = - 1 \<or> sint dist < sint cur_best_fit_dist
        then find_best_fit_loop framefmt ms (i + 1) (i, dist)
        else find_best_fit_loop framefmt ms (i + 1) (cur_best_fit, cur_best_fit_dist))"

definition find_best_fit_index :: "v4l2_subdev_format \<Rightarrow> nat" where
  "find_best_fit_index fmt = fst (find_best_fit_loop (format fmt) supported_modes 0 (0, - 1))"

definition mia1321_find_best_fit :: "v4l2_subdev_format \<Rightarrow> mia1321_mode" where
  "mia1321_find_best_fit fmt = supported_modes ! find_best_fit_index fmt"

definition mia1321_set_fmt ::
  "kernel \<Rightarrow> v4l2_subdev_pad_config \<Rightarrow> v4l2_subdev_format \<Rightarrow> world \<Rightarrow>
   int \<times> v4l2_subdev_pad_config \<times> v4l2_subdev_format \<times> world" where
  "mia1321_set_fmt K cfg fmt w =
    (let mode = mia1321_find_best_fit fmt;
         fmt1 = fmt\<lparr>format := (format fmt)\<lparr>fmt_code := bus_fmt mode, fmt_width := width mode,
                   fmt_height := height mode, fmt_field := V4L2_FIELD_NONE\<rparr>\<rparr>
     in if which fmt1 = V4L2_SUBDEV_FORMAT_TRY then
          (if CONFIG_VIDEO_V4L2_SUBDEV_API K then (0, cfg(pad fmt1 := format fmt1), fmt1, w)
           else (- ENOTTY, cfg, fmt1, w))
        else
          let w1 = w\<lparr>drv := (drv w)\<lparr>cur_mode := mode\<rparr>\<rparr>;
              h_blank = uint (hts_def mode - width mode);
              w2 = v4l2_ctrl_modify_range K Hblank_ctrl h_blank h_blank 1 h_blank w1;
              vblank_def = uint (vts_def mode - height mode);
              w3 = v4l2_ctrl_modify_range K Vblank_ctrl vblank_def
                     (uint (MIA1321_VTS_MAX - height mode)) 1 vblank_def w2;
              w4 = w3\<lparr>drv := (drv w3)\<lparr>cur_fps := max_fps mode\<rparr>\<rparr>
          in (0, cfg, fmt1, w4))"

definition mia1321_enable_test_pattern :: "u32 \<Rightarrow> world \<Rightarrow> int \<times> world" where
  "mia1321_enable_test_pattern pattern w = (let ret = 0 in (ret, w))"

subsection \<open>Bus configuration and private ioctls\<close>

record v4l2_mbus_config =
  mbus_type :: v4l2_mbus_type
  flags :: u32

definition mia1321_g_mbus_config :: "mia1321 \<Rightarrow> v4l2_mbus_config \<Rightarrow> int \<times> v4l2_mbus_config" where
  "mia1321_g_mbus_config d config =
    (let mode = cur_mode d;
         val0 = (push_bit (MIA1321_LANES - 1) 1 OR V4L2_MBUS_CSI2_CHANNEL_0)
                  OR V4L2_MBUS_CSI2_CONTINUOUS_CLOCK;
         val1 = (if hdr_mode mode \<noteq> NO_HDR then val0 OR V4L2_MBUS_CSI2_CHANNEL_1 else val0);
         val2 = (if hdr_mode mode = HDR_X3 then val1 OR V4L2_MBUS_CSI2_CHANNEL_2 else val1)
     in (0, config\<lparr>mbus_type := V4L2_MBUS_CSI2_DPHY, flags := val2\<rparr>))"

record rkmodule_inf =
  inf_sensor :: string
  inf_module :: string
  inf_lens :: string

record rkmodule_hdr_cfg =
  cfg_hdr_mode :: u32
  esp_mode :: u32

text \<open>
  Modelled from the spec: \<open>strscpy\<close> is a kernel helper, absent from the driver file and
  from the spec; it copies at most \<open>count - 1\<close> characters, keeping the last byte of the
  destination for the terminator.
\<close>

definition strscpy :: "string \<Rightarrow> nat \<Rightarrow> string" where
  "strscpy src count = take (count - 1) src"

definition mia1321_get_module_inf :: "mia1321 \<Rightarrow> rkmodule_inf" where
  "mia1321_get_module_inf d =
    \<lparr>inf_sensor = strscpy MIA1321_NAME RKMODULE_NAME_LEN,
     inf_module = strscpy (mod_name d) RKMODULE_NAME_LEN,
     inf_lens = strscpy (len_name d) RKMODULE_NAME_LEN\<rparr>"

text \<open>The command and the object its argument points to.\<close>

datatype ioctl_arg =
    RKMODULE_GET_MODULE_INFO rkmodule_inf
  | RKMODULE_GET_HDR_CFG rkmodule_hdr_cfg
  | RKMODULE_SET_HDR_CFG rkmodule_hdr_cfg
  | PREISP_CMD_SET_HDRAE_EXP
  | RKMODULE_SET_QUICK_STREAM u32
  | Other_cmd u32

text \<open>
  The search of \<open>RKMODULE_SET_HDR_CFG\<close>: the index at which the loop stops, and the mode
  found there when it stops at a \<open>break\<close>.
\<close>

fun set_hdr_cfg_loop ::
  "u32 \<Rightarrow> u32 \<Rightarrow> u32 \<Rightarrow> mia1321_mode list \<Rightarrow> nat \<Rightarrow> nat \<times> mia1321_mode option" where
  "set_hdr_cfg_loop w h hdr [] i = (i, None)"
| "set_hdr_cfg_loop w h hdr (m # ms) i =
    (if w = width m \<and> h = height m \<and> hdr_mode m = hdr then (i, Some m)
     else set_hdr_cfg_loop w h hdr ms (i + 1))"

definition mia1321_ioctl :: "kernel \<Rightarrow> ioctl_arg \<Rightarrow> world \<Rightarrow> int \<times> ioctl_arg \<times> world" where
  "mia1321_ioctl K arg wd =
    (case arg of
       RKMODULE_GET_MODULE_INFO i \<Rightarrow>
         (0, RKMODULE_GET_MODULE_INFO (mia1321_get_module_inf (drv wd)), wd)
     | RKMODULE_GET_HDR_CFG hdr \<Rightarrow>
         (0, RKMODULE_GET_HDR_CFG (hdr\<lparr>esp_mode := HDR_NORMAL_VC,
                                        cfg_hdr_mode := hdr_mode (cur_mode (drv wd))\<rparr>), wd)
     | RKMODULE_SET_HDR_CFG hdr \<Rightarrow>
         (let w = width (cur_mode (drv wd));
              h = height (cur_mode (drv wd))
          in case set_hdr_cfg_loop w h (cfg_hdr_mode hdr) supported_modes 0 of
               (i, found) \<Rightarrow>
                 (let wd1 = (case found of None \<Rightarrow> wd
                             | Some m \<Rightarrow> wd\<lparr>drv := (drv wd)\<lparr>cur_mode := m\<rparr>\<rparr>)
                  in if i = length supported_modes then (- EINVAL, arg, wd1)
                     else
                       let w' = hts_def (cur_mode (drv wd1)) - width (cur_mode (drv wd1));
                           h' = vts_def (cur_mode (drv wd1)) - height (cur_mode (drv wd1));
                           wd2 = v4l2_ctrl_modify_range K Hblank_ctrl (uint w') (uint w') 1
                                   (uint w') wd1;
                           wd3 = v4l2_ctrl_modify_range K Vblank_ctrl (uint h')
                                   (uint (MIA1321_VTS_MAX - height (cur_mode (drv wd2)))) 1
                                   (uint h') wd2
                       in (0, arg, wd3)))
     | PREISP_CMD_SET_HDRAE_EXP \<Rightarrow> (0, arg, wd)
     | RKMODULE_SET_QUICK_STREAM stream \<Rightarrow>
         (case (if stream \<noteq> 0
                then mia1321_write_reg K MIA1321_REG_CTRL_MODE MIA1321_REG_VALUE_08BIT
                       MIA1321_MODE_STREAMING wd
                else mia1321_write_reg K MIA1321_REG_CTRL_MODE MIA1321_REG_VALUE_08BIT
                       MIA1321_MODE_SW_STANDBY wd) of
            (ret, wd1) \<Rightarrow> (ret, arg, wd1))
     | Other_cmd c \<Rightarrow> (- ENOIOCTLCMD, arg, wd))"

subsection \<open>Streaming\<close>

text \<open>
  \<open>__mia1321_start_stream\<close> (an Isabelle name cannot start with an underscore). The
  first component of the pair bound first is \<open>None\<close> while no \<open>return\<close> was taken
  inside the \<open>if\<close>; the outer \<open>option\<close> of the result is \<open>None\<close> when the register
  table of the current mode is read past its end.
\<close>

definition mia1321_start_stream :: "kernel \<Rightarrow> world \<Rightarrow> int option \<times> world" where
  "mia1321_start_stream K w =
    (if \<not> is_thunderboot (drv w) then
       (case mia1321_write_array K (reg_list (cur_mode (drv w))) w of
          (None, w1) \<Rightarrow> (None, w1)
        | (Some ret, w1) \<Rightarrow>
            if ret \<noteq> 0 then (Some ret, w1)
            else
              (case v4l2_ctrl_handler_setup K w1 of
                 (ret, w2) \<Rightarrow>
                   if ret \<noteq> 0 then (Some ret, w2)
                   else
                     let (ret, w3) = mia1321_write_reg K MIA1321_REG_CTRL_MODE
                                       MIA1321_REG_VALUE_08BIT MIA1321_MODE_STREAMING w2;
                         (r1, w4) = mia1321_write_reg K MIA1321_FLIP_REG
                                      MIA1321_REG_VALUE_08BIT 0x01 w3;
                         (r2, w5) = mia1321_write_reg K MIA1321_MIRROR_REG
                                      MIA1321_REG_VALUE_08BIT 0x01 w4
                     in (Some ret, w5)))
     else
       let (ret, w3) = mia1321_write_reg K MIA1321_REG_CTRL_MODE
                         MIA1321_REG_VALUE_08BIT MIA1321_MODE_STREAMING w;
           (r1, w4) = mia1321_write_reg K MIA1321_FLIP_REG MIA1321_REG_VALUE_08BIT 0x01 w3;
           (r2, w5) = mia1321_write_reg K MIA1321_MIRROR_REG MIA1321_REG_VALUE_08BIT 0x01 w4
       in (Some ret, w5))"

subsection \<open>Power sequencing\<close>

text \<open>
  Modelled from the spec: \<open>DIV_ROUND_UP\<close> is a kernel macro, absent from the driver file
  and from the spec; it is taken as the kernel defines it, \<open>((n) + (d) - 1) / (d)\<close>, here
  on \<open>u32\<close>.
\<close>

definition DIV_ROUND_UP :: "u32 \<Rightarrow> u32 \<Rightarrow> u32" where
  "DIV_ROUND_UP n d = (n + d - 1) div d"

definition mia1321_cal_delay :: "u32 \<Rightarrow> u32" where
  "mia1321_cal_delay cycles =
    DIV_ROUND_UP cycles (of_nat (MIA1321_XVCLK_FREQ div 1000 div 1000))"

definition mia1321_configure_regulators :: "kernel \<Rightarrow> world \<Rightarrow> int \<times> world" where
  "mia1321_configure_regulators K w =
    (let w1 = w\<lparr>drv := (drv w)\<lparr>supplies := take MIA1321_NUM_SUPPLIES mia1321_supply_names\<rparr>\<rparr>
     in call K (Devm_regulator_bulk_get MIA1321_NUM_SUPPLIES (supplies (drv w1))) w1)"

text \<open>\<open>__mia1321_power_on\<close>.\<close>

definition mia1321_power_on :: "kernel \<Rightarrow> world \<Rightarrow> int \<times> world" where
  "mia1321_power_on K w =
    (let w1 = (if pins_default_valid (drv w)
               then snd (call K (Pinctrl_select_state Pins_default) w) else w);
         (r2, w2) = call K (Clk_set_rate MIA1321_XVCLK_FREQ) w1;
         (r3, w3) = call K Clk_get_rate w2;
         (ret, w4) = call K Clk_prepare_enable w3
     in if ret < 0 then (ret, w4)
        else if is_thunderboot (drv w4) then (0, w4)
        else
          let w5 = (if reset_gpio_valid (drv w4)
                    then emit (Gpiod_set_value_cansleep Reset_gpio 0) w4 else w4);
              (ret, w6) = call K (Regulator_bulk_enable MIA1321_NUM_SUPPLIES (supplies (drv w5))) w5
          in if ret < 0 then (ret, emit Clk_disable_unprepare w6)
             else
               let w7 = (if reset_gpio_valid (drv w6)
                         then emit (Gpiod_set_value_cansleep Reset_gpio 1) w6 else w6);
                   w8 = emit (Usleep_range 500 1000) w7;
                   w9 = (if pwdn_gpio_valid (drv w8)
                         then emit (Gpiod_set_value_cansleep Pwdn_gpio 1) w8 else w8);
                   w10 = (if reset_gpio_valid (drv w9)
                          then emit (Usleep_range 6000 8000) w9
                          else emit (Usleep_range 12000 16000) w9);
                   delay_us = mia1321_cal_delay 8192;
                   w11 = emit (Usleep_range (unat delay_us) (unat (delay_us * 2))) w10
               in (0, w11))"

subsection \<open>Controls\<close>

text \<open>
  The identifiers of the controls the driver registers with its own operations, and
  any other identifier. \<open>ctrl_val\<close> is the \<open>s32\<close> value of the control as its bit
  pattern.
\<close>

datatype v4l2_cid =
    V4L2_CID_EXPOSURE
  | V4L2_CID_ANALOGUE_GAIN
  | V4L2_CID_VBLANK
  | V4L2_CID_TEST_PATTERN
  | V4L2_CID_HFLIP
  | V4L2_CID_VFLIP
  | V4L2_CID_other u32

record v4l2_ctrl =
  ctrl_id :: v4l2_cid
  ctrl_val :: u32

definition mia1321_set_ctrl :: "kernel \<Rightarrow> v4l2_ctrl \<Rightarrow> world \<Rightarrow> int \<times> world" where
  "mia1321_set_ctrl K ctrl w =
    (let w1 = (case ctrl_id ctrl of
                 V4L2_CID_VBLANK \<Rightarrow>
                   (let max = uint (height (cur_mode (drv w)) + ctrl_val ctrl - 1)
                    in v4l2_ctrl_modify_range K Exposure_ctrl
                         (ctrl_minimum K (trace w) Exposure_ctrl) max
                         (ctrl_step K (trace w) Exposure_ctrl)
                         (ctrl_default_value K (trace w) Exposure_ctrl) w)
               | _ \<Rightarrow> w);
         (in_use, w2) = call K Pm_runtime_get_if_in_use w1
     in if in_use = 0 then (0, w2)
        else
          let (ret, w3) =
                (case ctrl_id ctrl of
                   V4L2_CID_EXPOSURE \<Rightarrow>
                     if hdr_mode (cur_mode (drv w2)) = NO_HDR then
                       let v = ctrl_val ctrl;
                           (ret, wa) = mia1321_write_reg K MIA1321_REG_EXPOSURE_H
                                         MIA1321_REG_VALUE_08BIT (MIA1321_FETCH_EXP_H v) w2;
                           (ret, wb) = mia1321_write_reg K MIA1321_REG_EXPOSURE_M
                                         MIA1321_REG_VALUE_08BIT (MIA1321_FETCH_EXP_M v) wa;
                           (r, wc) = mia1321_write_reg K MIA1321_REG_EXPOSURE_L
                                       MIA1321_REG_VALUE_08BIT (MIA1321_FETCH_EXP_L v) wb
                       in (ret OR r, wc)
                     else (0, w2)
                 | V4L2_CID_ANALOGUE_GAIN \<Rightarrow>
                     if hdr_mode (cur_mode (drv w2)) = NO_HDR
                     then mia1321_set_gain_reg K (ctrl_val ctrl) w2
                     else (0, w2)
                 | V4L2_CID_VBLANK \<Rightarrow>
                     (0, w2\<lparr>drv := (drv w2)\<lparr>cur_vts := vts_def (cur_mode (drv w2))\<rparr>\<rparr>)
                 | V4L2_CID_TEST_PATTERN \<Rightarrow> mia1321_enable_test_pattern (ctrl_val ctrl) w2
                 | V4L2_CID_HFLIP \<Rightarrow>
                     (case mia1321_read_reg K MIA1321_FLIP_REG MIA1321_REG_VALUE_08BIT 0 w2 of
                        (ret, v, wa) \<Rightarrow>
                          (ret, mia1321_set_orientation_reg K
                                  (if ctrl_val ctrl \<noteq> 0 then v OR MIRROR_BIT_MASK
                                   else v AND NOT MIRROR_BIT_MASK) wa))
                 | V4L2_CID_VFLIP \<Rightarrow>
                     (case mia1321_read_reg K MIA1321_MIRROR_REG MIA1321_REG_VALUE_08BIT 0 w2 of
                        (ret, v, wa) \<Rightarrow>
                          (ret, mia1321_set_orientation_reg K
                                  (if ctrl_val ctrl \<noteq> 0 then v OR FLIP_BIT_MASK
                                   else v AND NOT FLIP_BIT_MASK) wa))
                 | V4L2_CID_other c \<Rightarrow> (0, w2))
          in (ret, emit Pm_runtime_put w3))"

subsection \<open>Sensor identification\<close>

definition mia1321_check_sensor_id :: "kernel \<Rightarrow> world \<Rightarrow> int \<times> world" where
  "mia1321_check_sensor_id K w =
    (if is_thunderboot (drv w) then (0, w)
     else
       (case mia1321_read_reg K MIA1321_REG_CHIP_ID MIA1321_REG_VALUE_16BIT 0 w of
          (ret, chip_id, w1) \<Rightarrow> if chip_id \<noteq> CHIP_ID then (- ENODEV, w1) else (0, w1)))"

section \<open>Notions used in the statements\<close>

text \<open>
  What walking one entry of a register table puts on the trace: a delay of \<open>val\<close>
  milliseconds for \<open>REG_DELAY\<close>, otherwise the three bytes of an 8-bit register write.
\<close>

definition regval_event :: "regval \<Rightarrow> event" where
  "regval_event r =
    (if addr r = REG_DELAY then Mdelay (unat (val r))
     else I2c_master_send [ucast (drop_bit 8 (addr r)), ucast (addr r AND 0xff), val r])"

text \<open>
  An entry goes well after history \<open>h\<close> when it is a delay or when \<open>i2c_master_send\<close>
  reports all three bytes sent.
\<close>

definition entry_ok :: "kernel \<Rightarrow> event list \<Rightarrow> regval \<Rightarrow> bool" where
  "entry_ok K h r \<longleftrightarrow> addr r = REG_DELAY \<or> ret_of K h (regval_event r) = 3"

text \<open>The entries before the first \<open>REG_NULL\<close>, and the trace once \<open>n\<close> of them are walked.\<close>

definition table_body :: "regval list \<Rightarrow> regval list" where
  "table_body regs = takeWhile (\<lambda>r. addr r \<noteq> REG_NULL) regs"

definition walked :: "world \<Rightarrow> regval list \<Rightarrow> nat \<Rightarrow> event list" where
  "walked w regs n = trace w @ map regval_event (take n (table_body regs))"

text \<open>
  The value of the chip-ID register as the driver sees it: the two bytes read, high
  byte first, or 0 when the transfer fails.
\<close>

definition sensor_id_read :: "kernel \<Rightarrow> world \<Rightarrow> u32" where
  "sensor_id_read K w =
    (if ret_of K (trace w) (I2c_transfer MIA1321_REG_CHIP_ID 2) = 2
     then (let bs = i2c_rx K (trace w) MIA1321_REG_CHIP_ID 2 @ [0, 0]
           in push_bit 8 (ucast (bs ! 0)) OR ucast (bs ! 1))
     else 0)"


text \<open>
  The three register writes that end a stream start: streaming mode, flip, mirror.
\<close>

definition stream_on_tail :: "event list" where
  "stream_on_tail =
    [I2c_master_send [0x01, 0x26, 0x00], I2c_master_send [0x00, 0x99, 0x01],
     I2c_master_send [0x00, 0x9a, 0x01]]"


text \<open>The register triple of a gain table entry, in the order \<open>0x001b, 0x0019, 0x0018\<close>.\<close>

definition again_regs :: "s_again \<Rightarrow> u8 \<times> u8 \<times> u8" where
  "again_regs e = (ucast (reg_001b e), ucast (reg_0019 e), ucast (reg_0018 e))"


text \<open>The I2C transactions of a trace.\<close>

fun is_i2c :: "event \<Rightarrow> bool" where
  "is_i2c (I2c_master_send buf) = True"
| "is_i2c (I2c_transfer reg len) = True"
| "is_i2c e = False"

definition i2c_events :: "event list \<Rightarrow> event list" where
  "i2c_events h = filter is_i2c h"

text \<open>
  The three writes an exposure value is turned into: bits 23 to 16 to \<open>0x00cf\<close>, bits 15
  to 8 to \<open>0x00ce\<close>, bits 7 to 0 to \<open>0x00cd\<close>.
\<close>

definition exposure_writes :: "u32 \<Rightarrow> event list" where
  "exposure_writes v =
    [I2c_master_send [0x00, 0xcf, ucast (drop_bit 16 v AND 0xFF)],
     I2c_master_send [0x00, 0xce, ucast (drop_bit 8 v AND 0xFF)],
     I2c_master_send [0x00, 0xcd, ucast (v AND 0xFF)]]"

text \<open>
  The steps of the power-up sequence as trace fragments. A step on a pin state or a GPIO
  is there only when the driver holds a valid handle for it.
\<close>

definition pins_step :: "mia1321 \<Rightarrow> event list" where
  "pins_step d = (if pins_default_valid d then [Pinctrl_select_state Pins_default] else [])"

definition clock_steps :: "event list" where
  "clock_steps = [Clk_set_rate 26000000, Clk_get_rate, Clk_prepare_enable]"

definition reset_step :: "mia1321 \<Rightarrow> nat \<Rightarrow> event list" where
  "reset_step d v = (if reset_gpio_valid d then [Gpiod_set_value_cansleep Reset_gpio v] else [])"

definition regulator_step :: "mia1321 \<Rightarrow> event" where
  "regulator_step d = Regulator_bulk_enable 3 (supplies d)"

definition pwdn_step :: "mia1321 \<Rightarrow> event list" where
  "pwdn_step d = (if pwdn_gpio_valid d then [Gpiod_set_value_cansleep Pwdn_gpio 1] else [])"

definition settle_step :: "mia1321 \<Rightarrow> event" where
  "settle_step d =
    (if reset_gpio_valid d then Usleep_range 6000 8000 else Usleep_range 12000 16000)"

text \<open>What enabling the clock and the regulators return in a run from \<open>w\<close>.\<close>

definition clk_enable_ret :: "kernel \<Rightarrow> world \<Rightarrow> int" where
  "clk_enable_ret K w =
    ret_of K (trace w @ pins_step (drv w) @ [Clk_set_rate 26000000, Clk_get_rate])
      Clk_prepare_enable"

definition regulator_ret :: "kernel \<Rightarrow> world \<Rightarrow> int" where
  "regulator_ret K w =
    ret_of K (trace w @ pins_step (drv w) @ clock_steps @ reset_step (drv w) 0)
      (regulator_step (drv w))"

text \<open>
  The Manhattan distance between a mode and a requested frame size, on the integers.
\<close>

definition manhattan :: "mia1321_mode \<Rightarrow> v4l2_mbus_framefmt \<Rightarrow> int" where
  "manhattan m f =
    \<bar>uint (width m) - uint (fmt_width f)\<bar> + \<bar>uint (height m) - uint (fmt_height f)\<bar>"


text \<open>
  The callbacks the control framework makes while it changes a range are calls of the
  driver's own \<open>s_ctrl\<close>, which never assigns \<open>cur_mode\<close>: a kernel whose callbacks leave
  the current mode alone.
\<close>

definition callbacks_keep_mode :: "kernel \<Rightarrow> bool" where
  "callbacks_keep_mode K \<longleftrightarrow>
     (\<forall>w. cur_mode (drv (modify_range_effect K w)) = cur_mode (drv w))"
section \<open>Concrete inputs\<close>

definition idle_drv :: mia1321 where
  "idle_drv =
    \<lparr>supplies = mia1321_supply_names, pins_default_valid = True, pins_sleep_valid = True,
     reset_gpio_valid = True, pwdn_gpio_valid = True, streaming = False, power_on = False,
     cur_mode = supported_modes ! 0, cur_fps = max_fps (supported_modes ! 0),
     module_index = 0, module_facing = ''back'', mod_name = ''CMK'', len_name = ''lens'',
     cur_vts = 0, is_thunderboot = False, is_first_streamoff = False, is_mirror = False,
     is_flip = False\<rparr>"

definition idle_world :: world where
  "idle_world = \<lparr>drv = idle_drv, trace = []\<rparr>"

text \<open>
  A kernel in which every call succeeds: \<open>i2c_master_send\<close> returns the number of bytes,
  \<open>i2c_transfer\<close> the number of messages, \<open>pm_runtime_get_if_in_use\<close> returns 1, every
  other call 0; the sensor answers every read with the bytes \<open>0x04 0x00\<close>.
\<close>

fun good_ret :: "event list \<Rightarrow> event \<Rightarrow> int" where
  "good_ret h (I2c_master_send buf) = int (length buf)"
| "good_ret h (I2c_transfer reg len) = 2"
| "good_ret h Pm_runtime_get_if_in_use = 1"
| "good_ret h e = 0"

fun chip_rx :: "event list \<Rightarrow> u16 \<Rightarrow> nat \<Rightarrow> u8 list" where
  "chip_rx h reg len = take len [0x04, 0x00]"

fun no_ctrl :: "event list \<Rightarrow> ctrl_handle \<Rightarrow> int" where
  "no_ctrl h c = 1"

definition good_kernel :: kernel where
  "good_kernel =
    \<lparr>ret_of = good_ret, i2c_rx = chip_rx, ctrl_minimum = no_ctrl, ctrl_step = no_ctrl,
     ctrl_default_value = no_ctrl, handler_setup_effect = id, modify_range_effect = id,
     CONFIG_VIDEO_V4L2_SUBDEV_API = True\<rparr>"

definition fse_third_mode :: v4l2_subdev_frame_size_enum where
  "fse_third_mode =
    \<lparr>fse_index = 2, fse_code = MEDIA_BUS_FMT_SGRBG10_1X10, min_width = 0, max_width = 0,
     min_height = 0, max_height = 0\<rparr>"


text \<open>
  A table with a delay, ended by \<open>REG_NULL\<close> before its last entry; a kernel in which
  the second \<open>i2c_master_send\<close> of a run, and every later one, sends nothing.
\<close>

definition short_table :: "regval list" where
  "short_table =
    [\<lparr>addr = 0x011d, val = 0x00\<rparr>, \<lparr>addr = REG_DELAY, val = 0x05\<rparr>,
     \<lparr>addr = 0x011f, val = 0x07\<rparr>, \<lparr>addr = 0x012e, val = 0x02\<rparr>,
     \<lparr>addr = REG_NULL, val = 0x00\<rparr>, \<lparr>addr = 0x0001, val = 0x01\<rparr>]"

fun late_sends_fail :: "event list \<Rightarrow> event \<Rightarrow> int" where
  "late_sends_fail h (I2c_master_send buf) = (if length h < 2 then int (length buf) else 0)"
| "late_sends_fail h e = good_ret h e"

definition second_send_fails :: kernel where
  "second_send_fails = good_kernel\<lparr>ret_of := late_sends_fail\<rparr>"

text \<open>A kernel in which every call fails with \<open>-EIO\<close>, and a driver in thunderboot mode.\<close>

fun all_fail :: "event list \<Rightarrow> event \<Rightarrow> int" where
  "all_fail h e = - 5"

definition dead_bus :: kernel where
  "dead_bus = good_kernel\<lparr>ret_of := all_fail\<rparr>"

definition thunder_world :: world where
  "thunder_world = idle_world\<lparr>drv := idle_drv\<lparr>is_thunderboot := True\<rparr>\<rparr>"

text \<open>A request for two-frame HDR, and a bus configuration not yet filled in.\<close>

definition hdr_x2_request :: rkmodule_hdr_cfg where
  "hdr_x2_request = \<lparr>cfg_hdr_mode = HDR_X2, esp_mode = 0\<rparr>"

definition blank_config :: v4l2_mbus_config where
  "blank_config = \<lparr>mbus_type = V4L2_MBUS_UNKNOWN, flags = 0\<rparr>"


text \<open>
  A kernel in which the device is not in use, so that \<open>pm_runtime_get_if_in_use\<close> returns
  0; controls to set.
\<close>

fun suspended_ret :: "event list \<Rightarrow> event \<Rightarrow> int" where
  "suspended_ret h Pm_runtime_get_if_in_use = 0"
| "suspended_ret h e = good_ret h e"

definition suspended_kernel :: kernel where
  "suspended_kernel = good_kernel\<lparr>ret_of := suspended_ret\<rparr>"

definition exposure_500 :: v4l2_ctrl where
  "exposure_500 = \<lparr>ctrl_id = V4L2_CID_EXPOSURE, ctrl_val = 0x01f4\<rparr>"

definition vblank_120 :: v4l2_ctrl where
  "vblank_120 = \<lparr>ctrl_id = V4L2_CID_VBLANK, ctrl_val = 120\<rparr>"

definition test_pattern_1 :: v4l2_ctrl where
  "test_pattern_1 = \<lparr>ctrl_id = V4L2_CID_TEST_PATTERN, ctrl_val = 1\<rparr>"

text \<open>
  A kernel whose control framework finds the exposure outside every new range: it moves
  the exposure to its default value 1 and calls the driver's \<open>s_ctrl\<close> for it.
\<close>

definition exposure_default :: v4l2_ctrl where
  "exposure_default = \<lparr>ctrl_id = V4L2_CID_EXPOSURE, ctrl_val = 1\<rparr>"

definition clamping_kernel :: kernel where
  "clamping_kernel =
    good_kernel\<lparr>modify_range_effect :=
      (\<lambda>w. snd (mia1321_set_ctrl good_kernel exposure_default w))\<rparr>"

text \<open>
  A board without a reset GPIO, and a kernel in which \<open>regulator_bulk_enable\<close> fails with
  \<open>-EIO\<close>.
\<close>

definition no_reset_world :: world where
  "no_reset_world = idle_world\<lparr>drv := idle_drv\<lparr>reset_gpio_valid := False\<rparr>\<rparr>"

fun regulator_fails :: "event list \<Rightarrow> event \<Rightarrow> int" where
  "regulator_fails h (Regulator_bulk_enable n names) = - 5"
| "regulator_fails h e = good_ret h e"

definition no_power_kernel :: kernel where
  "no_power_kernel = good_kernel\<lparr>ret_of := regulator_fails\<rparr>"

text \<open>
  Format requests, an empty set of try formats, and a kernel built without
  \<open>CONFIG_VIDEO_V4L2_SUBDEV_API\<close>.
\<close>

definition fmt_1280x1080_try :: v4l2_subdev_format where
  "fmt_1280x1080_try =
    \<lparr>which = V4L2_SUBDEV_FORMAT_TRY, pad = 0,
     format = \<lparr>fmt_width = 1280, fmt_height = 1080, fmt_code = 0, fmt_field = 0\<rparr>\<rparr>"

definition fmt_640x480_active :: v4l2_subdev_format where
  "fmt_640x480_active =
    \<lparr>which = V4L2_SUBDEV_FORMAT_ACTIVE, pad = 0,
     format = \<lparr>fmt_width = 640, fmt_height = 480, fmt_code = 0, fmt_field = 0\<rparr>\<rparr>"

definition fmt_far_away :: v4l2_subdev_format where
  "fmt_far_away =
    \<lparr>which = V4L2_SUBDEV_FORMAT_ACTIVE, pad = 0,
     format = \<lparr>fmt_width = 2147484928, fmt_height = 2147484727, fmt_code = 0,
                fmt_field = 0\<rparr>\<rparr>"

definition no_try_format :: v4l2_subdev_pad_config where
  "no_try_format = (\<lambda>p. \<lparr>fmt_width = 0, fmt_height = 0, fmt_code = 0, fmt_field = 0\<rparr>)"

definition no_subdev_api :: kernel where
  "no_subdev_api = good_kernel\<lparr>CONFIG_VIDEO_V4L2_SUBDEV_API := False\<rparr>"

section \<open>Verified properties\<close>

subsection \<open>An 8-bit register write\<close>

lemma ucast_u8_u32_u8: "ucast (ucast (v :: u8) :: u32) = v"
  by (rule ucast_up_ucast_id) (simp add: is_up)

lemma write_reg_08bit:
  "mia1321_write_reg K a MIA1321_REG_VALUE_08BIT (ucast (v :: u8)) w =
    (if ret_of K (trace w) (I2c_master_send [ucast (drop_bit 8 a), ucast (a AND 0xff), v]) \<noteq> 3
     then - EIO else 0,
     emit (I2c_master_send [ucast (drop_bit 8 a), ucast (a AND 0xff), v]) w)"
  by (simp add: mia1321_write_reg_def MIA1321_REG_VALUE_08BIT_def cpu_to_be32_def call_def
      ucast_u8_u32_u8)

lemma write_reg_08bit_trace:
  "snd (mia1321_write_reg K reg MIA1321_REG_VALUE_08BIT v w) =
     emit (I2c_master_send [ucast (drop_bit 8 reg), ucast (reg AND 0xff), ucast v]) w"
  by (simp add: mia1321_write_reg_def MIA1321_REG_VALUE_08BIT_def cpu_to_be32_def call_def
      Let_def)

lemma write_reg_08bit_ret:
  "fst (mia1321_write_reg K reg MIA1321_REG_VALUE_08BIT v w) =
     (if ret_of K (trace w)
           (I2c_master_send [ucast (drop_bit 8 reg), ucast (reg AND 0xff), ucast v]) \<noteq> 3
      then - EIO else 0)"
  by (simp add: mia1321_write_reg_def MIA1321_REG_VALUE_08BIT_def cpu_to_be32_def call_def
      Let_def)

lemma write_reg_08bit_pair:
  "mia1321_write_reg K reg MIA1321_REG_VALUE_08BIT v w =
     (if ret_of K (trace w)
           (I2c_master_send [ucast (drop_bit 8 reg), ucast (reg AND 0xff), ucast v]) \<noteq> 3
      then - EIO else 0,
      emit (I2c_master_send [ucast (drop_bit 8 reg), ucast (reg AND 0xff), ucast v]) w)"
  by (simp add: prod_eq_iff write_reg_08bit_ret write_reg_08bit_trace)

subsection \<open>The mode table\<close>

lemma supported_modes_hdr: "m \<in> set supported_modes \<Longrightarrow> hdr_mode m = NO_HDR"
  by (auto simp: supported_modes_def)

text \<open>The mode \<open>mia1321_find_best_fit\<close> returns is an entry of the table.\<close>

lemma find_best_fit_loop_bound:
  "fst best < i + length ms \<Longrightarrow> fst (find_best_fit_loop f ms i best) < i + length ms"
proof (induction ms arbitrary: i best)
  case Nil
  then show ?case by simp
next
  case (Cons m ms)
  obtain b bd where best: "best = (b, bd)" by (cases best)
  show ?case
    using Cons.IH [of "(i, mia1321_get_reso_dist m f)" "Suc i"]
      Cons.IH [of "(b, bd)" "Suc i"] Cons.prems
    by (simp add: best Let_def)
qed

lemma find_best_fit_supported: "mia1321_find_best_fit fmt \<in> set supported_modes"
proof -
  have "0 < length supported_modes" by (simp add: supported_modes_def)
  then have "find_best_fit_index fmt < length supported_modes"
    using find_best_fit_loop_bound [of "(0, - 1)" 0 supported_modes "format fmt"]
    by (simp add: find_best_fit_index_def)
  then show ?thesis by (simp add: mia1321_find_best_fit_def)
qed

subsection \<open>Exposure\<close>

text \<open>
  C1, as amended. \<open>mia1321_set_ctrl\<close> first asks \<open>pm_runtime_get_if_in_use\<close>. When the
  answer is not 0 and the current mode is a supported mode (all of which have \<open>hdr_mode\<close>
  \<open>NO_HDR\<close>), an exposure value \<open>v\<close> becomes three 8-bit register writes, in this order:
  \<open>(v >> 16) & 0xFF\<close> to \<open>0x00cf\<close>, \<open>(v >> 8) & 0xFF\<close> to \<open>0x00ce\<close> and \<open>v & 0xFF\<close> to
  \<open>0x00cd\<close>, followed by \<open>pm_runtime_put\<close>; the driver state is left as it was. When the
  answer is 0, the device being not in use, nothing is written and the result is 0.
\<close>

theorem set_ctrl_exposure:
  assumes "ctrl_id ctrl = V4L2_CID_EXPOSURE"
    and "cur_mode (drv w) \<in> set supported_modes"
  shows "(ret_of K (trace w) Pm_runtime_get_if_in_use \<noteq> 0 \<longrightarrow>
            snd (mia1321_set_ctrl K ctrl w) =
              w\<lparr>trace := trace w @ [Pm_runtime_get_if_in_use] @ exposure_writes (ctrl_val ctrl)
                            @ [Pm_runtime_put]\<rparr>) \<and>
         (ret_of K (trace w) Pm_runtime_get_if_in_use = 0 \<longrightarrow>
            mia1321_set_ctrl K ctrl w = (0, w\<lparr>trace := trace w @ [Pm_runtime_get_if_in_use]\<rparr>))"
proof -
  from assms(2) have h: "hdr_mode (cur_mode (drv w)) = NO_HDR"
    by (rule supported_modes_hdr)
  show ?thesis
    using assms(1) h
    by (simp add: mia1321_set_ctrl_def call_def Let_def split_beta write_reg_08bit_pair
        emit_def exposure_writes_def MIA1321_REG_EXPOSURE_H_def MIA1321_REG_EXPOSURE_M_def
        MIA1321_REG_EXPOSURE_L_def MIA1321_FETCH_EXP_H_def MIA1321_FETCH_EXP_M_def
        MIA1321_FETCH_EXP_L_def)
qed

text \<open>
  The claim as stated, for every exposure value set through V4L2, fails while the sensor
  is not in use: the control is accepted and no register is written.
\<close>

theorem set_ctrl_exposure_not_in_use:
  "mia1321_set_ctrl suspended_kernel exposure_500 idle_world =
     (0, idle_world\<lparr>trace := [Pm_runtime_get_if_in_use]\<rparr>)"
  by code_simp

theorem set_ctrl_exposure_witness:
  "ctrl_id exposure_500 = V4L2_CID_EXPOSURE \<and>
   cur_mode (drv idle_world) \<in> set supported_modes \<and>
   ret_of good_kernel (trace idle_world) Pm_runtime_get_if_in_use \<noteq> 0 \<and>
   snd (mia1321_set_ctrl good_kernel exposure_500 idle_world) =
     idle_world\<lparr>trace := [Pm_runtime_get_if_in_use, I2c_master_send [0x00, 0xcf, 0x00],
       I2c_master_send [0x00, 0xce, 0x01], I2c_master_send [0x00, 0xcd, 0xf4],
       Pm_runtime_put]\<rparr> \<and>
   ret_of suspended_kernel (trace idle_world) Pm_runtime_get_if_in_use = 0 \<and>
   mia1321_set_ctrl suspended_kernel exposure_500 idle_world =
     (0, idle_world\<lparr>trace := [Pm_runtime_get_if_in_use]\<rparr>)"
proof -
  have a: "ctrl_id exposure_500 = V4L2_CID_EXPOSURE"
    by (simp add: exposure_500_def)
  have b: "cur_mode (drv idle_world) \<in> set supported_modes"
    by (simp add: idle_world_def idle_drv_def supported_modes_def)
  have c: "ret_of good_kernel (trace idle_world) Pm_runtime_get_if_in_use \<noteq> 0"
    by (simp add: good_kernel_def)
  have d: "ret_of suspended_kernel (trace idle_world) Pm_runtime_get_if_in_use = 0"
    by (simp add: suspended_kernel_def)
  have e: "exposure_writes (ctrl_val exposure_500) =
      [I2c_master_send [0x00, 0xcf, 0x00], I2c_master_send [0x00, 0xce, 0x01],
       I2c_master_send [0x00, 0xcd, 0xf4]]"
    by (simp add: exposure_writes_def exposure_500_def)
  have t: "trace idle_world = []"
    by (simp add: idle_world_def)
  show ?thesis
    using a b c d set_ctrl_exposure [OF a b, of good_kernel]
      set_ctrl_exposure [OF a b, of suspended_kernel]
    by (simp add: e t)
qed

subsection \<open>Analogue gain\<close>

lemma gain_max_value: "MIA1321_GAIN_MAX - 1 = 47999" "MIA1321_GAIN_MIN = 1500"
  by (simp_all add: MIA1321_GAIN_MAX_def MIA1321_AGAIN_MAX_def MIA1321_ONCE_GAIN_STEP_def
      MIA1321_GAIN_MIN_def)

lemma clamp_gain_range: "1500 \<le> clamp_gain g \<and> clamp_gain g \<le> 47999"
  by (simp add: clamp_gain_def gain_max_value Let_def) unat_arith

lemma clamp_gain_id: "1500 \<le> g \<Longrightarrow> g \<le> 47999 \<Longrightarrow> clamp_gain g = g"
  by (simp add: clamp_gain_def gain_max_value Let_def) unat_arith

lemma set_gain_loop_find:
  "gain < MIA1321_GAIN_MAX - 1 \<Longrightarrow>
   set_gain_loop gain es regs =
     (case find (\<lambda>e. gain \<le> again e) es of None \<Rightarrow> regs | Some e \<Rightarrow> again_regs e)"
  by (induction es) (auto simp: again_regs_def)

lemma set_gain_loop_saturated:
  "MIA1321_GAIN_MAX - 1 \<le> gain \<Longrightarrow> again e < gain \<Longrightarrow>
   set_gain_loop gain (e # es) regs = (0x32, 1, 0x70)"
  by (simp add: not_le [symmetric])

lemma again_table_max: "e \<in> set mia1321_again \<Longrightarrow> again e \<le> 25600"
  by (auto simp: mia1321_again_def)

lemma find_above_table:
  "25600 < gain \<Longrightarrow> find (\<lambda>e. gain \<le> again e) mia1321_again = None"
  by (auto simp: find_None_iff dest!: again_table_max)

lemma find_in_table:
  "gain \<le> 25600 \<Longrightarrow> \<exists>e. find (\<lambda>e. gain \<le> again e) mia1321_again = Some e"
proof -
  assume "gain \<le> 25600"
  then have "\<exists>e\<in>set mia1321_again. gain \<le> again e"
    by (simp add: mia1321_again_def)
  then show ?thesis
    by (cases "find (\<lambda>e. gain \<le> again e) mia1321_again") (auto simp: find_None_iff)
qed

text \<open>What the loop yields over the whole range of the clamped gain.\<close>

lemma set_gain_loop_cases:
  "set_gain_loop (clamp_gain g) mia1321_again (0x1f, 0x00, 0x00) =
    (if clamp_gain g \<le> 25600
     then again_regs (the (find (\<lambda>e. clamp_gain g \<le> again e) mia1321_again))
     else if clamp_gain g = 47999 then (0x32, 1, 0x70)
     else (0x1f, 0x00, 0x00))"
proof -
  consider "clamp_gain g \<le> 25600" | "25600 < clamp_gain g" "clamp_gain g < 47999"
    | "clamp_gain g = 47999"
    using clamp_gain_range [of g] by fastforce
  then show ?thesis
  proof cases
    case 1
    then have lt: "clamp_gain g < MIA1321_GAIN_MAX - 1"
      by (simp add: gain_max_value) unat_arith
    from find_in_table [OF 1] lt show ?thesis
      using 1 by (auto simp: set_gain_loop_find)
  next
    case 2
    then have lt: "clamp_gain g < MIA1321_GAIN_MAX - 1"
      by (simp add: gain_max_value)
    have n: "\<not> clamp_gain g \<le> 25600" "clamp_gain g \<noteq> 47999"
      using 2 by auto
    show ?thesis
      by (simp add: set_gain_loop_find [OF lt] find_above_table [OF 2(1)] n)
  next
    case 3
    have "set_gain_loop 47999 mia1321_again (0x1f, 0x00, 0x00) = (0x32, 1, 0x70)"
      by (simp add: mia1321_again_def gain_max_value)
    then show ?thesis by (simp add: 3)
  qed
qed

lemma set_gain_reg_trace:
  "trace (snd (mia1321_set_gain_reg K g w)) =
    (case set_gain_loop (clamp_gain g) mia1321_again (0x1f, 0x00, 0x00) of
       (gain_0x001b, gain_0x0019, gain_0x0018) \<Rightarrow>
         trace w @ [I2c_master_send [0x00, 0x1b, gain_0x001b],
                    I2c_master_send [0x00, 0x19, gain_0x0019],
                    I2c_master_send [0x00, 0x18, gain_0x0018]])"
  by (simp add: mia1321_set_gain_reg_def split_beta Let_def write_reg_08bit_trace emit_def
      ucast_u8_u32_u8 MIA1321_REG_ANA_GAIN_H_def MIA1321_REG_ANA_GAIN_M_def
      MIA1321_REG_ANA_GAIN_L_def)

text \<open>
  C2. \<open>mia1321_set_gain_reg\<close> clamps the gain into \<open>[1500, 47999]\<close> and, up to the
  largest \<open>again\<close> of the table, 25600, writes the register triple of the first entry
  whose \<open>again\<close> is at least the clamped gain (\<open>set_gain_loop_cases\<close>). Above 25600 the
  claim asks for the triple of the last entry, \<open>0x32, 0x1, 0x70\<close>. The code writes it for
  47999 only: a gain from 25601 to 47998 leaves the loop without a match and the three
  registers get the values the variables were initialised with, \<open>0x1f, 0x00, 0x00\<close>,
  those of the lowest gain. The theorem is the run at gain 30000.
\<close>

theorem set_gain_reg_above_table:
  "mia1321_set_gain_reg good_kernel 30000 idle_world =
    (0, idle_world\<lparr>trace := [I2c_master_send [0x00, 0x1b, 0x1f],
          I2c_master_send [0x00, 0x19, 0x00], I2c_master_send [0x00, 0x18, 0x00]]\<rparr>)"
  by code_simp

subsection \<open>Vertical blanking and test pattern\<close>

text \<open>
  C3, as amended. The code \<open>mia1321_set_ctrl\<close> runs for the vertical-blanking control
  and for the test-pattern control writes no sensor register. For vertical blanking it
  hands the exposure control the new maximum \<open>height + val - 1\<close> through
  \<open>__v4l2_ctrl_modify_range\<close>, asks \<open>pm_runtime_get_if_in_use\<close> and, when the device is in
  use, stores the \<open>vts_def\<close> of the current mode in \<open>cur_vts\<close>: the I2C transactions of
  the run are those the control framework made inside \<open>__v4l2_ctrl_modify_range\<close>, and
  there is none when the framework makes no callback. For the test pattern it does
  nothing beyond taking and releasing the runtime-PM reference, and the run holds no I2C
  transaction. Both return 0.
\<close>

theorem set_ctrl_blanking_pattern_no_write:
  "(ctrl_id ctrl = V4L2_CID_VBLANK \<longrightarrow>
      (let w1 = v4l2_ctrl_modify_range K Exposure_ctrl
                  (ctrl_minimum K (trace w) Exposure_ctrl)
                  (uint (height (cur_mode (drv w)) + ctrl_val ctrl - 1))
                  (ctrl_step K (trace w) Exposure_ctrl)
                  (ctrl_default_value K (trace w) Exposure_ctrl) w
       in mia1321_set_ctrl K ctrl w =
            (0, if ret_of K (trace w1) Pm_runtime_get_if_in_use = 0
                then w1\<lparr>trace := trace w1 @ [Pm_runtime_get_if_in_use]\<rparr>
                else w1\<lparr>drv := (drv w1)\<lparr>cur_vts := vts_def (cur_mode (drv w1))\<rparr>,
                        trace := trace w1 @ [Pm_runtime_get_if_in_use, Pm_runtime_put]\<rparr>) \<and>
          i2c_events (trace (snd (mia1321_set_ctrl K ctrl w))) = i2c_events (trace w1) \<and>
          (modify_range_effect K = (\<lambda>w. w) \<longrightarrow>
             i2c_events (trace (snd (mia1321_set_ctrl K ctrl w))) = i2c_events (trace w)))) \<and>
   (ctrl_id ctrl = V4L2_CID_TEST_PATTERN \<longrightarrow>
      mia1321_set_ctrl K ctrl w =
        (0, if ret_of K (trace w) Pm_runtime_get_if_in_use = 0
            then w\<lparr>trace := trace w @ [Pm_runtime_get_if_in_use]\<rparr>
            else w\<lparr>trace := trace w @ [Pm_runtime_get_if_in_use, Pm_runtime_put]\<rparr>) \<and>
      i2c_events (trace (snd (mia1321_set_ctrl K ctrl w))) = i2c_events (trace w))"
  by (auto simp: mia1321_set_ctrl_def v4l2_ctrl_modify_range_def call_def emit_def Let_def
      mia1321_enable_test_pattern_def i2c_events_def)

text \<open>
  The claim as stated, at least one register write for each of the two controls, fails on
  a sensor that is in use and whose bus works: neither run holds an I2C transaction.
\<close>

theorem set_ctrl_blanking_pattern_silent:
  "mia1321_set_ctrl good_kernel vblank_120 idle_world =
     (0, idle_world\<lparr>drv := idle_drv\<lparr>cur_vts := 0x04b0\<rparr>,
           trace := [V4l2_ctrl_modify_range Exposure_ctrl 1 1199 1 1,
                     Pm_runtime_get_if_in_use, Pm_runtime_put]\<rparr>) \<and>
   mia1321_set_ctrl good_kernel test_pattern_1 idle_world =
     (0, idle_world\<lparr>trace := [Pm_runtime_get_if_in_use, Pm_runtime_put]\<rparr>)"
  by code_simp

text \<open>
  A run in which the framework moves the exposure: the only register writes are those of
  the exposure callback, to \<open>0x00cf\<close>, \<open>0x00ce\<close> and \<open>0x00cd\<close>; the blanking code adds none.
\<close>

theorem set_ctrl_blanking_pattern_no_write_witness:
  "ctrl_id vblank_120 = V4L2_CID_VBLANK \<and>
   v4l2_ctrl_modify_range clamping_kernel Exposure_ctrl 1 1199 1 1 idle_world =
     idle_world\<lparr>trace := [V4l2_ctrl_modify_range Exposure_ctrl 1 1199 1 1,
        Pm_runtime_get_if_in_use, I2c_master_send [0x00, 0xcf, 0x00],
        I2c_master_send [0x00, 0xce, 0x00], I2c_master_send [0x00, 0xcd, 0x01],
        Pm_runtime_put]\<rparr> \<and>
   mia1321_set_ctrl clamping_kernel vblank_120 idle_world =
     (0, idle_world\<lparr>drv := idle_drv\<lparr>cur_vts := 0x04b0\<rparr>,
           trace := [V4l2_ctrl_modify_range Exposure_ctrl 1 1199 1 1,
        Pm_runtime_get_if_in_use, I2c_master_send [0x00, 0xcf, 0x00],
        I2c_master_send [0x00, 0xce, 0x00], I2c_master_send [0x00, 0xcd, 0x01],
        Pm_runtime_put, Pm_runtime_get_if_in_use, Pm_runtime_put]\<rparr>) \<and>
   i2c_events (trace (snd (mia1321_set_ctrl clamping_kernel vblank_120 idle_world))) =
     exposure_writes 1 \<and>
   modify_range_effect good_kernel = (\<lambda>w. w) \<and>
   i2c_events (trace (snd (mia1321_set_ctrl good_kernel vblank_120 idle_world))) = [] \<and>
   ctrl_id test_pattern_1 = V4L2_CID_TEST_PATTERN \<and>
   mia1321_set_ctrl good_kernel test_pattern_1 idle_world =
     (0, idle_world\<lparr>trace := [Pm_runtime_get_if_in_use, Pm_runtime_put]\<rparr>)"
proof -
  have a: "ctrl_id vblank_120 = V4L2_CID_VBLANK"
    by (simp add: vblank_120_def)
  have b: "ctrl_id test_pattern_1 = V4L2_CID_TEST_PATTERN"
    by (simp add: test_pattern_1_def)
  have m: "v4l2_ctrl_modify_range clamping_kernel Exposure_ctrl 1 1199 1 1 idle_world =
     idle_world\<lparr>trace := [V4l2_ctrl_modify_range Exposure_ctrl 1 1199 1 1,
        Pm_runtime_get_if_in_use, I2c_master_send [0x00, 0xcf, 0x00],
        I2c_master_send [0x00, 0xce, 0x00], I2c_master_send [0x00, 0xcd, 0x01],
        Pm_runtime_put]\<rparr>"
    by code_simp
  have v: "ctrl_minimum clamping_kernel h Exposure_ctrl = 1"
    "ctrl_step clamping_kernel h Exposure_ctrl = 1"
    "ctrl_default_value clamping_kernel h Exposure_ctrl = 1"
    "ctrl_minimum good_kernel h Exposure_ctrl = 1"
    "ctrl_step good_kernel h Exposure_ctrl = 1"
    "ctrl_default_value good_kernel h Exposure_ctrl = 1"
    "uint (height (cur_mode idle_drv) + ctrl_val vblank_120 - 1) = 1199"
    "vts_def (cur_mode idle_drv) = 0x04b0"
    "drv idle_world = idle_drv" "trace idle_world = []" for h
    by (simp_all add: clamping_kernel_def good_kernel_def idle_world_def idle_drv_def
        vblank_120_def supported_modes_def)
  have r: "ret_of clamping_kernel h Pm_runtime_get_if_in_use \<noteq> 0"
    "ret_of good_kernel h Pm_runtime_get_if_in_use \<noteq> 0" for h
    by (simp_all add: clamping_kernel_def good_kernel_def)
  have g: "modify_range_effect good_kernel = (\<lambda>w. w)"
    by (simp add: good_kernel_def id_def)
  note C = set_ctrl_blanking_pattern_no_write [of vblank_120 clamping_kernel idle_world,
      THEN conjunct1, THEN mp, OF a]
  note G = set_ctrl_blanking_pattern_no_write [of vblank_120 good_kernel idle_world,
      THEN conjunct1, THEN mp, OF a]
  note P = set_ctrl_blanking_pattern_no_write [of test_pattern_1 good_kernel idle_world,
      THEN conjunct2, THEN mp, OF b, THEN conjunct1]
  from C have c1: "mia1321_set_ctrl clamping_kernel vblank_120 idle_world =
     (0, idle_world\<lparr>drv := idle_drv\<lparr>cur_vts := 0x04b0\<rparr>,
           trace := [V4l2_ctrl_modify_range Exposure_ctrl 1 1199 1 1,
        Pm_runtime_get_if_in_use, I2c_master_send [0x00, 0xcf, 0x00],
        I2c_master_send [0x00, 0xce, 0x00], I2c_master_send [0x00, 0xcd, 0x01],
        Pm_runtime_put, Pm_runtime_get_if_in_use, Pm_runtime_put]\<rparr>)"
    by (simp add: Let_def v m r)
  from C have c2: "i2c_events (trace (snd (mia1321_set_ctrl clamping_kernel vblank_120
      idle_world))) = exposure_writes 1"
    by (simp add: Let_def v m i2c_events_def exposure_writes_def)
  have g1: "i2c_events (trace (snd (mia1321_set_ctrl good_kernel vblank_120
      idle_world))) = []"
    using G [unfolded Let_def, THEN conjunct2, THEN conjunct2, THEN mp, OF g]
    by (simp add: v i2c_events_def)
  from P have p1: "mia1321_set_ctrl good_kernel test_pattern_1 idle_world =
     (0, idle_world\<lparr>trace := [Pm_runtime_get_if_in_use, Pm_runtime_put]\<rparr>)"
    by (simp add: v r)
  show ?thesis
    using a m c1 c2 g g1 b p1 by (intro conjI)
qed

subsection \<open>Sensor identification\<close>

lemma read_data2:
  "take 2 (xs @ replicate 2 (0::u8)) = [(xs @ [0, 0]) ! 0, (xs @ [0, 0]) ! 1]"
proof (cases xs)
  case Nil
  then show ?thesis by (simp add: numeral_2_eq_2)
next
  case (Cons x ys)
  then show ?thesis by (cases ys) (simp_all add: numeral_2_eq_2)
qed

lemma read_chip_id:
  "mia1321_read_reg K MIA1321_REG_CHIP_ID MIA1321_REG_VALUE_16BIT 0 w =
    (if ret_of K (trace w) (I2c_transfer MIA1321_REG_CHIP_ID 2) = 2 then 0 else - EIO,
     sensor_id_read K w, emit (I2c_transfer MIA1321_REG_CHIP_ID 2) w)"
  apply (simp only: mia1321_read_reg_def MIA1321_REG_VALUE_16BIT_def read_data2)
  apply (simp add: sensor_id_read_def call_def be32_to_cpu_def Let_def numeral_2_eq_2)
  done

text \<open>
  C4. With thunderboot enabled \<open>mia1321_check_sensor_id\<close> returns 0 and leaves the world
  as it is: no I2C transaction. With thunderboot disabled it makes one 16-bit read of
  register \<open>0x0011\<close> and returns \<open>-ENODEV\<close> exactly when the value read differs from
  \<open>0x0400\<close>, which includes a failed read, where the value is 0; otherwise it returns 0.
  \<open>mia1321_probe\<close> hands a non-zero result of this function on as its own.
\<close>

theorem check_sensor_id_spec:
  "(is_thunderboot (drv w) \<longrightarrow> mia1321_check_sensor_id K w = (0, w)) \<and>
   (\<not> is_thunderboot (drv w) \<longrightarrow>
      snd (mia1321_check_sensor_id K w) = emit (I2c_transfer 0x0011 2) w \<and>
      fst (mia1321_check_sensor_id K w) =
        (if sensor_id_read K w \<noteq> 0x0400 then - ENODEV else 0)) \<and>
   (fst (mia1321_check_sensor_id K w) = - ENODEV \<longleftrightarrow>
      \<not> is_thunderboot (drv w) \<and> sensor_id_read K w \<noteq> 0x0400) \<and>
   (ret_of K (trace w) (I2c_transfer 0x0011 2) \<noteq> 2 \<longrightarrow> sensor_id_read K w = 0)"
  by (simp add: mia1321_check_sensor_id_def read_chip_id CHIP_ID_def ENODEV_def
      MIA1321_REG_CHIP_ID_def [symmetric])
    (simp add: sensor_id_read_def MIA1321_REG_CHIP_ID_def)

theorem check_sensor_id_spec_witness:
  "\<not> is_thunderboot (drv idle_world) \<and>
   mia1321_check_sensor_id good_kernel idle_world =
     (0, idle_world\<lparr>trace := [I2c_transfer 0x0011 2]\<rparr>) \<and>
   mia1321_check_sensor_id dead_bus idle_world =
     (- ENODEV, idle_world\<lparr>trace := [I2c_transfer 0x0011 2]\<rparr>) \<and>
   is_thunderboot (drv thunder_world) \<and>
   mia1321_check_sensor_id dead_bus thunder_world = (0, thunder_world)"
proof -
  have "sensor_id_read good_kernel idle_world = 0x0400"
    and "sensor_id_read dead_bus idle_world \<noteq> 0x0400"
    and "\<not> is_thunderboot (drv idle_world)"
    and "is_thunderboot (drv thunder_world)"
    by (simp_all add: idle_world_def idle_drv_def thunder_world_def good_kernel_def
        dead_bus_def sensor_id_read_def MIA1321_REG_CHIP_ID_def)
  then show ?thesis
    using check_sensor_id_spec [of idle_world good_kernel]
      check_sensor_id_spec [of idle_world dead_bus]
      check_sensor_id_spec [of thunder_world dead_bus]
    by (simp add: prod_eq_iff) (simp add: idle_world_def emit_def)
qed

subsection \<open>Register writes\<close>

lemma emit_trace: "emit e w = w\<lparr>trace := trace w @ [e]\<rparr>"
  by (simp add: emit_def)

lemma write_array_loop_ok:
  "REG_NULL \<in> addr ` set regs \<Longrightarrow>
   \<forall>j<length (takeWhile (\<lambda>r. addr r \<noteq> REG_NULL) regs).
      entry_ok K (trace w @ map regval_event (take j (takeWhile (\<lambda>r. addr r \<noteq> REG_NULL) regs)))
        (takeWhile (\<lambda>r. addr r \<noteq> REG_NULL) regs ! j) \<Longrightarrow>
   write_array_loop K 0 regs w =
     (Some 0, w\<lparr>trace := trace w @ map regval_event (takeWhile (\<lambda>r. addr r \<noteq> REG_NULL) regs)\<rparr>)"
proof (induction regs arbitrary: w)
  case Nil
  then show ?case by simp
next
  case (Cons r regs)
  show ?case
  proof (cases "addr r = REG_NULL")
    case True
    then show ?thesis by simp
  next
    case False
    let ?body = "takeWhile (\<lambda>r. addr r \<noteq> REG_NULL) regs"
    let ?w' = "emit (regval_event r) w"
    from Cons.prems(1) False have mem: "REG_NULL \<in> addr ` set regs" by auto
    from Cons.prems(2) False have ok0: "entry_ok K (trace w) r"
      by (auto dest: spec [of _ 0])
    have ok': "\<forall>j<length ?body. entry_ok K (trace ?w' @ map regval_event (take j ?body)) (?body ! j)"
    proof (intro allI impI)
      fix j assume "j < length ?body"
      with Cons.prems(2) False
      have "entry_ok K (trace w @ map regval_event (take (Suc j) (r # ?body))) ((r # ?body) ! Suc j)"
        by (auto dest: spec [of _ "Suc j"])
      then show "entry_ok K (trace ?w' @ map regval_event (take j ?body)) (?body ! j)"
        by (simp add: emit_def)
    qed
    have IH: "write_array_loop K 0 regs ?w' =
      (Some 0, ?w'\<lparr>trace := trace ?w' @ map regval_event ?body\<rparr>)"
      by (rule Cons.IH [OF mem ok'])
    have step: "write_array_loop K 0 (r # regs) w = write_array_loop K 0 regs ?w'"
      using False ok0 by (auto simp: entry_ok_def regval_event_def write_reg_08bit)
    show ?thesis unfolding step IH using False by (simp add: emit_def)
  qed
qed

lemma write_array_loop_fail:
  "k < length (takeWhile (\<lambda>r. addr r \<noteq> REG_NULL) regs) \<Longrightarrow>
   \<not> entry_ok K (trace w @ map regval_event (take k (takeWhile (\<lambda>r. addr r \<noteq> REG_NULL) regs)))
        (takeWhile (\<lambda>r. addr r \<noteq> REG_NULL) regs ! k) \<Longrightarrow>
   \<forall>j<k.
      entry_ok K (trace w @ map regval_event (take j (takeWhile (\<lambda>r. addr r \<noteq> REG_NULL) regs)))
        (takeWhile (\<lambda>r. addr r \<noteq> REG_NULL) regs ! j) \<Longrightarrow>
   write_array_loop K 0 regs w =
     (Some (- EIO),
      w\<lparr>trace := trace w @ map regval_event (take (Suc k) (takeWhile (\<lambda>r. addr r \<noteq> REG_NULL) regs))\<rparr>)"
proof (induction regs arbitrary: w k)
  case Nil
  then show ?case by simp
next
  case (Cons r regs)
  let ?body = "takeWhile (\<lambda>r. addr r \<noteq> REG_NULL) regs"
  let ?w' = "emit (regval_event r) w"
  from Cons.prems(1) have nn: "addr r \<noteq> REG_NULL"
    by (cases "addr r = REG_NULL") auto
  show ?case
  proof (cases k)
    case 0
    with Cons.prems(2) nn have bad: "\<not> entry_ok K (trace w) r" by simp
    then have nd: "addr r \<noteq> REG_DELAY" by (simp add: entry_ok_def)
    have "write_array_loop K 0 (r # regs) w = (Some (- EIO), ?w')"
      using nn nd bad
      by (cases regs) (auto simp: entry_ok_def regval_event_def write_reg_08bit EIO_def)
    then show ?thesis using nn 0 by (simp add: emit_def)
  next
    case (Suc k')
    from Cons.prems(3) Suc nn have ok0: "entry_ok K (trace w) r"
      by (auto dest: spec [of _ 0])
    from Cons.prems(1) Suc nn have lt: "k' < length ?body" by simp
    from Cons.prems(2) Suc nn
    have bad: "\<not> entry_ok K (trace ?w' @ map regval_event (take k' ?body)) (?body ! k')"
      by (simp add: emit_def)
    have ok': "\<forall>j<k'. entry_ok K (trace ?w' @ map regval_event (take j ?body)) (?body ! j)"
    proof (intro allI impI)
      fix j assume "j < k'"
      with Cons.prems(3) Suc nn
      have "entry_ok K (trace w @ map regval_event (take (Suc j) (r # ?body))) ((r # ?body) ! Suc j)"
        by (auto dest: spec [of _ "Suc j"])
      then show "entry_ok K (trace ?w' @ map regval_event (take j ?body)) (?body ! j)"
        by (simp add: emit_def)
    qed
    have IH: "write_array_loop K 0 regs ?w' =
      (Some (- EIO), ?w'\<lparr>trace := trace ?w' @ map regval_event (take (Suc k') ?body)\<rparr>)"
      by (rule Cons.IH [OF lt bad ok'])
    have step: "write_array_loop K 0 (r # regs) w = write_array_loop K 0 regs ?w'"
      using nn ok0 by (auto simp: entry_ok_def regval_event_def write_reg_08bit)
    show ?thesis unfolding step IH using nn Suc by (simp add: emit_def)
  qed
qed

text \<open>
  C5. For every register table that holds a \<open>REG_NULL\<close> entry, \<open>mia1321_write_array\<close>
  walks the entries before the first \<open>REG_NULL\<close> in index order: an entry with address
  \<open>REG_DELAY\<close> delays by \<open>val\<close> milliseconds, every other entry is one 8-bit register
  write. If every write succeeds, all of them are walked and the result is 0. Otherwise
  the walk ends with the first write that fails: the result is that write's error code,
  \<open>-EIO\<close>, and no later entry is written or delayed.
\<close>

theorem write_array_walk:
  assumes "REG_NULL \<in> addr ` set regs"
  shows "((\<forall>j<length (table_body regs). entry_ok K (walked w regs j) (table_body regs ! j)) \<longrightarrow>
            mia1321_write_array K regs w =
              (Some 0, w\<lparr>trace := walked w regs (length (table_body regs))\<rparr>)) \<and>
         (\<forall>k<length (table_body regs).
            \<not> entry_ok K (walked w regs k) (table_body regs ! k) \<and>
            (\<forall>j<k. entry_ok K (walked w regs j) (table_body regs ! j)) \<longrightarrow>
            mia1321_write_array K regs w = (Some (- EIO), w\<lparr>trace := walked w regs (Suc k)\<rparr>))"
proof (intro conjI allI impI)
  assume "\<forall>j<length (table_body regs). entry_ok K (walked w regs j) (table_body regs ! j)"
  then show "mia1321_write_array K regs w =
      (Some 0, w\<lparr>trace := walked w regs (length (table_body regs))\<rparr>)"
    using write_array_loop_ok [OF assms, of K w]
    by (simp add: mia1321_write_array_def table_body_def walked_def)
next
  fix k
  assume "k < length (table_body regs)"
    and "\<not> entry_ok K (walked w regs k) (table_body regs ! k) \<and>
         (\<forall>j<k. entry_ok K (walked w regs j) (table_body regs ! j))"
  then show "mia1321_write_array K regs w = (Some (- EIO), w\<lparr>trace := walked w regs (Suc k)\<rparr>)"
    using write_array_loop_fail [of k regs K w]
    by (simp add: mia1321_write_array_def table_body_def walked_def)
qed

theorem write_array_walk_witness:
  "REG_NULL \<in> addr ` set short_table \<and>
   entry_ok good_kernel (walked idle_world short_table 0) (table_body short_table ! 0) \<and>
   entry_ok good_kernel (walked idle_world short_table 1) (table_body short_table ! 1) \<and>
   entry_ok good_kernel (walked idle_world short_table 2) (table_body short_table ! 2) \<and>
   entry_ok good_kernel (walked idle_world short_table 3) (table_body short_table ! 3) \<and>
   mia1321_write_array good_kernel short_table idle_world =
     (Some 0, idle_world\<lparr>trace := [I2c_master_send [0x01, 0x1d, 0x00], Mdelay 5,
        I2c_master_send [0x01, 0x1f, 0x07], I2c_master_send [0x01, 0x2e, 0x02]]\<rparr>) \<and>
   2 < length (table_body short_table) \<and>
   entry_ok second_send_fails (walked idle_world short_table 0) (table_body short_table ! 0) \<and>
   entry_ok second_send_fails (walked idle_world short_table 1) (table_body short_table ! 1) \<and>
   \<not> entry_ok second_send_fails (walked idle_world short_table 2) (table_body short_table ! 2) \<and>
   mia1321_write_array second_send_fails short_table idle_world =
     (Some (- EIO), idle_world\<lparr>trace := [I2c_master_send [0x01, 0x1d, 0x00], Mdelay 5,
        I2c_master_send [0x01, 0x1f, 0x07]]\<rparr>)"
proof -
  have body: "table_body short_table =
      [\<lparr>addr = 0x011d, val = 0x00\<rparr>, \<lparr>addr = REG_DELAY, val = 0x05\<rparr>,
       \<lparr>addr = 0x011f, val = 0x07\<rparr>, \<lparr>addr = 0x012e, val = 0x02\<rparr>]"
    by (simp add: table_body_def short_table_def REG_NULL_def REG_DELAY_def)
  have mem: "REG_NULL \<in> addr ` set short_table"
    by (simp add: short_table_def)
  have good: "\<forall>j<length (table_body short_table).
      entry_ok good_kernel (walked idle_world short_table j) (table_body short_table ! j)"
    apply (simp only: body list.size)
    apply (simp only: All_less_Suc body [symmetric])
    apply simp
    apply code_simp
    done
  have len: "2 < length (table_body short_table)"
    by (simp add: body)
  have bad: "\<not> entry_ok second_send_fails (walked idle_world short_table 2)
      (table_body short_table ! 2)"
    by code_simp
  have first: "\<forall>j<2. entry_ok second_send_fails (walked idle_world short_table j)
      (table_body short_table ! j)"
    apply (simp only: numeral_2_eq_2 All_less_Suc)
    apply simp
    apply code_simp
    done
  have w4: "walked idle_world short_table (length (table_body short_table)) =
      [I2c_master_send [0x01, 0x1d, 0x00], Mdelay 5,
       I2c_master_send [0x01, 0x1f, 0x07], I2c_master_send [0x01, 0x2e, 0x02]]"
    by (simp add: body walked_def regval_event_def idle_world_def REG_DELAY_def)
  have w3: "walked idle_world short_table (Suc 2) =
      [I2c_master_send [0x01, 0x1d, 0x00], Mdelay 5, I2c_master_send [0x01, 0x1f, 0x07]]"
    by code_simp
  have r1: "mia1321_write_array good_kernel short_table idle_world =
      (Some 0, idle_world\<lparr>trace := walked idle_world short_table
         (length (table_body short_table))\<rparr>)"
    by (rule write_array_walk [OF mem, of good_kernel idle_world, THEN conjunct1, THEN mp,
          OF good])
  have r2: "mia1321_write_array second_send_fails short_table idle_world =
      (Some (- EIO), idle_world\<lparr>trace := walked idle_world short_table (Suc 2)\<rparr>)"
    by (rule write_array_walk [OF mem, of second_send_fails idle_world, THEN conjunct2,
          THEN spec, THEN mp, OF len, THEN mp, OF conjI [OF bad first]])
  have g: "entry_ok good_kernel (walked idle_world short_table 0) (table_body short_table ! 0)"
    "entry_ok good_kernel (walked idle_world short_table 1) (table_body short_table ! 1)"
    "entry_ok good_kernel (walked idle_world short_table 2) (table_body short_table ! 2)"
    "entry_ok good_kernel (walked idle_world short_table 3) (table_body short_table ! 3)"
    "entry_ok second_send_fails (walked idle_world short_table 0) (table_body short_table ! 0)"
    "entry_ok second_send_fails (walked idle_world short_table 1) (table_body short_table ! 1)"
    by code_simp+
  show ?thesis
    using mem g len bad r1 [unfolded w4] r2 [unfolded w3] by (intro conjI)
qed

subsection \<open>Format negotiation\<close>

text \<open>
  All modes are 1280 by 1080: a request is equally far from each of them, in the
  arithmetic of the code and on the integers.
\<close>

lemma reso_dist_same:
  "m \<in> set supported_modes \<Longrightarrow>
   mia1321_get_reso_dist m f = mia1321_get_reso_dist (supported_modes ! 0) f"
  by (auto simp: supported_modes_def mia1321_get_reso_dist_def)

lemma manhattan_same:
  "m \<in> set supported_modes \<Longrightarrow> manhattan m f = manhattan (supported_modes ! 0) f"
  by (auto simp: supported_modes_def manhattan_def)

lemma find_best_fit_loop_tie:
  "mia1321_get_reso_dist b f = mia1321_get_reso_dist a f \<Longrightarrow>
   mia1321_get_reso_dist c f = mia1321_get_reso_dist a f \<Longrightarrow>
   fst (find_best_fit_loop f [a, b, c] 0 (0, - 1)) =
     (if mia1321_get_reso_dist a f = - 1 then 2 else 0)"
  by (simp add: Let_def)

lemma find_best_fit_index_cases:
  "find_best_fit_index fmt =
    (if mia1321_get_reso_dist (supported_modes ! 0) (format fmt) = - 1 then 2 else 0)"
proof -
  have l: "supported_modes = [supported_modes ! 0, supported_modes ! 1, supported_modes ! 2]"
    by (simp add: supported_modes_def)
  have "fst (find_best_fit_loop (format fmt)
      [supported_modes ! 0, supported_modes ! 1, supported_modes ! 2] 0 (0, - 1)) =
      (if mia1321_get_reso_dist (supported_modes ! 0) (format fmt) = - 1 then 2 else 0)"
    by (rule find_best_fit_loop_tie)
      (simp_all add: supported_modes_def mia1321_get_reso_dist_def)
  then show ?thesis
    unfolding find_best_fit_index_def by (subst l)
qed

text \<open>
  The distance computed by the code is \<open>-1\<close> only if one of the two differences is the
  most negative \<open>int\<close>: not for a request whose width differs from \<open>2^31 + 1280\<close> and whose
  height differs from \<open>2^31 + 1080\<close>, in particular not for any size below \<open>2^31\<close>.
\<close>

lemma uint_div_msb:
  "uint (x :: u32) div 2147483648 = (if uint x < 2147483648 then 0 else 1)"
proof -
  have b: "0 \<le> uint x" "uint x < 4294967296"
    using uint_lt2p [of x] by simp_all
  then show ?thesis by auto
qed

lemma sint_u32: "sint (x :: u32) = (if uint x < 2147483648 then uint x else uint x - 4294967296)"
proof -
  have b: "0 \<le> uint x" "uint x < 4294967296"
    using uint_lt2p [of x] by simp_all
  have "bit (uint x) 31 \<longleftrightarrow> 2147483648 \<le> uint x"
    by (simp add: bit_iff_odd uint_div_msb)
  then show ?thesis
    using b by (simp add: sint_uint signed_take_bit_eq_take_bit_minus take_bit_int_eq_self)
qed

lemma abs_int_bound: "x \<noteq> 0x80000000 \<Longrightarrow> uint (abs_int x) < 2147483648"
proof -
  assume n: "x \<noteq> 0x80000000"
  have b: "0 \<le> uint x" "uint x < 4294967296"
    using uint_lt2p [of x] by simp_all
  from n have ne: "uint x \<noteq> 2147483648"
    by (simp add: word_uint_eq_iff)
  show ?thesis
  proof (cases "uint x < 2147483648")
    case True
    then show ?thesis by (simp add: abs_int_def sint_u32)
  next
    case False
    with ne b have r: "2147483648 < uint x" by simp
    then have "(- uint x) mod 4294967296 = 4294967296 - uint x"
      using b by (simp add: zmod_zminus1_eq_if)
    then show ?thesis
      using False r b by (simp add: abs_int_def sint_u32 uint_word_ariths)
  qed
qed

lemma sum_not_minus_one:
  "uint (a :: u32) < 2147483648 \<Longrightarrow> uint (b :: u32) < 2147483648 \<Longrightarrow> a + b \<noteq> - 1"
proof
  assume a: "uint a < 2147483648" and b: "uint b < 2147483648" and e: "a + b = - 1"
  have p: "0 \<le> uint a" "0 \<le> uint b" by simp_all
  with a b have "(uint a + uint b + 1) mod 4294967296 = uint a + uint b + 1"
    by simp
  then have "uint (a + b + 1) = uint a + uint b + 1"
    by (simp add: uint_word_ariths)
  moreover from e have "a + b + 1 = 0" by simp
  ultimately show False using p by simp
qed

lemma reso_dist_not_sentinel:
  assumes "m \<in> set supported_modes"
    and "fmt_width f \<noteq> 2147484928" and "fmt_height f \<noteq> 2147484728"
  shows "mia1321_get_reso_dist m f \<noteq> - 1"
proof -
  from assms(1) have wh: "width m = 1280" "height m = 1080"
    by (auto simp: supported_modes_def)
  have "1280 - fmt_width f \<noteq> 0x80000000"
  proof
    assume h: "1280 - fmt_width f = 0x80000000"
    have "fmt_width f = 1280 - (1280 - fmt_width f)" by simp
    also have "\<dots> = 1280 - 0x80000000" by (simp only: h)
    finally show False using assms(2) by simp
  qed
  moreover have "1080 - fmt_height f \<noteq> 0x80000000"
  proof
    assume h: "1080 - fmt_height f = 0x80000000"
    have "fmt_height f = 1080 - (1080 - fmt_height f)" by simp
    also have "\<dots> = 1080 - 0x80000000" by (simp only: h)
    finally show False using assms(3) by simp
  qed
  ultimately show ?thesis
    unfolding mia1321_get_reso_dist_def wh
    by (intro sum_not_minus_one abs_int_bound)
qed

text \<open>
  C6, as amended. For every request \<open>mia1321_set_fmt\<close> overwrites the width, height and
  media-bus code of the request with those of the mode \<open>mia1321_find_best_fit\<close> returns,
  and sets the field to \<open>V4L2_FIELD_NONE\<close>. That mode is an entry of \<open>supported_modes\<close>
  at the least Manhattan distance from the request: the three entries have the same size
  and are equally far. As long as the distance the code computes in 32 bits is not \<open>-1\<close>,
  it is the entry of lowest index, \<open>supported_modes[0]\<close>. A TRY request leaves the driver
  untouched and returns 0, or \<open>-ENOTTY\<close> in a kernel without
  \<open>CONFIG_VIDEO_V4L2_SUBDEV_API\<close>. Any other request returns 0: it makes that mode the
  current mode, hands the control framework the hblank range \<open>hts_def - width\<close> and then
  the vblank range from \<open>vts_def - height\<close> up to \<open>0xffff - height\<close>, and takes the frame
  rate of the mode. With a framework that makes no callback the trace gains exactly these
  two calls; with callbacks that leave the current mode alone, the current mode at return
  is that mode.
\<close>

theorem set_fmt_spec:
  "mia1321_find_best_fit fmt \<in> set supported_modes \<and>
   (\<forall>i<length supported_modes.
      manhattan (mia1321_find_best_fit fmt) (format fmt)
        \<le> manhattan (supported_modes ! i) (format fmt)) \<and>
   (mia1321_get_reso_dist (supported_modes ! 0) (format fmt) \<noteq> - 1 \<longrightarrow>
      find_best_fit_index fmt = 0 \<and> mia1321_find_best_fit fmt = supported_modes ! 0) \<and>
   fst (snd (snd (mia1321_set_fmt K cfg fmt w))) =
     fmt\<lparr>format := (format fmt)\<lparr>fmt_code := bus_fmt (mia1321_find_best_fit fmt),
              fmt_width := width (mia1321_find_best_fit fmt),
              fmt_height := height (mia1321_find_best_fit fmt),
              fmt_field := V4L2_FIELD_NONE\<rparr>\<rparr> \<and>
   fst (mia1321_set_fmt K cfg fmt w) =
     (if which fmt = V4L2_SUBDEV_FORMAT_TRY \<and> \<not> CONFIG_VIDEO_V4L2_SUBDEV_API K
      then - ENOTTY else 0) \<and>
   (which fmt = V4L2_SUBDEV_FORMAT_TRY \<longrightarrow>
      snd (snd (snd (mia1321_set_fmt K cfg fmt w))) = w) \<and>
   (which fmt \<noteq> V4L2_SUBDEV_FORMAT_TRY \<longrightarrow>
      (let mode = mia1321_find_best_fit fmt;
           w1 = w\<lparr>drv := (drv w)\<lparr>cur_mode := mode\<rparr>\<rparr>;
           w2 = v4l2_ctrl_modify_range K Hblank_ctrl
                  (uint (hts_def mode - width mode)) (uint (hts_def mode - width mode)) 1
                  (uint (hts_def mode - width mode)) w1;
           w3 = v4l2_ctrl_modify_range K Vblank_ctrl
                  (uint (vts_def mode - height mode)) (uint (MIA1321_VTS_MAX - height mode)) 1
                  (uint (vts_def mode - height mode)) w2
       in snd (snd (snd (mia1321_set_fmt K cfg fmt w))) =
            w3\<lparr>drv := (drv w3)\<lparr>cur_fps := max_fps mode\<rparr>\<rparr>)) \<and>
   (which fmt \<noteq> V4L2_SUBDEV_FORMAT_TRY \<and> modify_range_effect K = (\<lambda>w. w) \<longrightarrow>
      (let mode = mia1321_find_best_fit fmt
       in snd (snd (snd (mia1321_set_fmt K cfg fmt w))) =
            w\<lparr>drv := (drv w)\<lparr>cur_mode := mode, cur_fps := max_fps mode\<rparr>,
              trace := trace w @
                [V4l2_ctrl_modify_range Hblank_ctrl
                   (uint (hts_def mode - width mode)) (uint (hts_def mode - width mode)) 1
                   (uint (hts_def mode - width mode)),
                 V4l2_ctrl_modify_range Vblank_ctrl
                   (uint (vts_def mode - height mode))
                   (uint (MIA1321_VTS_MAX - height mode)) 1
                   (uint (vts_def mode - height mode))]\<rparr>)) \<and>
   (which fmt \<noteq> V4L2_SUBDEV_FORMAT_TRY \<and> callbacks_keep_mode K \<longrightarrow>
      cur_mode (drv (snd (snd (snd (mia1321_set_fmt K cfg fmt w))))) =
        mia1321_find_best_fit fmt)"
proof -
  have s: "mia1321_find_best_fit fmt \<in> set supported_modes"
    by (rule find_best_fit_supported)
  have mh: "\<forall>i<length supported_modes.
      manhattan (mia1321_find_best_fit fmt) (format fmt)
        \<le> manhattan (supported_modes ! i) (format fmt)"
    using manhattan_same [OF s, of "format fmt"] by (simp add: manhattan_same)
  have i: "mia1321_get_reso_dist (supported_modes ! 0) (format fmt) \<noteq> - 1 \<longrightarrow>
      find_best_fit_index fmt = 0 \<and> mia1321_find_best_fit fmt = supported_modes ! 0"
    by (simp add: find_best_fit_index_cases mia1321_find_best_fit_def)
  have k: "which fmt \<noteq> V4L2_SUBDEV_FORMAT_TRY \<and> callbacks_keep_mode K \<longrightarrow>
      cur_mode (drv (snd (snd (snd (mia1321_set_fmt K cfg fmt w))))) =
        mia1321_find_best_fit fmt"
    by (simp add: mia1321_set_fmt_def Let_def v4l2_ctrl_modify_range_def emit_def
        callbacks_keep_mode_def)
  show ?thesis
    by (intro conjI s mh i k)
      (simp_all add: mia1321_set_fmt_def Let_def v4l2_ctrl_modify_range_def emit_def)
qed

text \<open>
  At width \<open>2^31 + 1280\<close> and height \<open>2^31 + 1079\<close> the computed distance is \<open>-1\<close>, the
  value \<open>cur_best_fit_dist\<close> starts with, and the loop takes every mode in turn for a
  first candidate: it ends on the last one, the 12-bit mode.
\<close>

lemma find_best_fit_sentinel:
  "mia1321_get_reso_dist (supported_modes ! 0) (format fmt_far_away) = - 1 \<and>
   find_best_fit_index fmt_far_away = 2 \<and>
   manhattan (supported_modes ! 0) (format fmt_far_away)
     = manhattan (supported_modes ! 2) (format fmt_far_away) \<and>
   bus_fmt (mia1321_find_best_fit fmt_far_away) = MEDIA_BUS_FMT_SGRBG12_1X12 \<and>
   format (fst (snd (snd (mia1321_set_fmt good_kernel no_try_format fmt_far_away
       idle_world)))) =
     \<lparr>fmt_width = 1280, fmt_height = 1080, fmt_code = MEDIA_BUS_FMT_SGRBG12_1X12,
      fmt_field = V4L2_FIELD_NONE\<rparr>"
proof -
  have d: "mia1321_get_reso_dist (supported_modes ! 0) (format fmt_far_away) = - 1"
    by (simp add: supported_modes_def mia1321_get_reso_dist_def fmt_far_away_def abs_int_def)
  then have i: "find_best_fit_index fmt_far_away = 2"
    by (simp add: find_best_fit_index_cases)
  then have m: "mia1321_find_best_fit fmt_far_away = supported_modes ! 2"
    by (simp add: mia1321_find_best_fit_def)
  have v: "bus_fmt (supported_modes ! 2) = MEDIA_BUS_FMT_SGRBG12_1X12"
    "width (supported_modes ! 2) = 1280" "height (supported_modes ! 2) = 1080"
    by (simp_all add: supported_modes_def)
  have f: "format (fst (snd (snd (mia1321_set_fmt good_kernel no_try_format fmt_far_away
       idle_world)))) =
     \<lparr>fmt_width = 1280, fmt_height = 1080, fmt_code = MEDIA_BUS_FMT_SGRBG12_1X12,
      fmt_field = V4L2_FIELD_NONE\<rparr>"
    by (simp add: mia1321_set_fmt_def Let_def m v)
  have h: "manhattan (supported_modes ! 0) (format fmt_far_away)
     = manhattan (supported_modes ! 2) (format fmt_far_away)"
    by (simp add: supported_modes_def manhattan_def)
  have b: "bus_fmt (mia1321_find_best_fit fmt_far_away) = MEDIA_BUS_FMT_SGRBG12_1X12"
    by (simp add: m v)
  show ?thesis
    using d i h b f by (intro conjI)
qed

text \<open>
  The claim as stated, 0 for every requested format, fails for a TRY request in a kernel
  built without \<open>CONFIG_VIDEO_V4L2_SUBDEV_API\<close>.
\<close>

theorem set_fmt_try_without_subdev_api:
  "fst (mia1321_set_fmt no_subdev_api no_try_format fmt_1280x1080_try idle_world) = - ENOTTY"
proof -
  have "mia1321_get_reso_dist (supported_modes ! 0) (format fmt_1280x1080_try) = 0"
    by (simp add: supported_modes_def mia1321_get_reso_dist_def fmt_1280x1080_try_def
        abs_int_def)
  then have "mia1321_find_best_fit fmt_1280x1080_try = supported_modes ! 0"
    by (simp add: mia1321_find_best_fit_def find_best_fit_index_cases)
  then show ?thesis
    by (simp add: mia1321_set_fmt_def Let_def fmt_1280x1080_try_def no_subdev_api_def
        V4L2_SUBDEV_FORMAT_TRY_def)
qed

theorem set_fmt_spec_witness:
  "mia1321_get_reso_dist (supported_modes ! 0) (format fmt_640x480_active) \<noteq> - 1 \<and>
   find_best_fit_index fmt_640x480_active = 0 \<and>
   manhattan (supported_modes ! 0) (format fmt_640x480_active)
     \<le> manhattan (supported_modes ! 2) (format fmt_640x480_active) \<and>
   which fmt_640x480_active \<noteq> V4L2_SUBDEV_FORMAT_TRY \<and>
   modify_range_effect good_kernel = (\<lambda>w. w) \<and>
   callbacks_keep_mode good_kernel \<and>
   fst (mia1321_set_fmt good_kernel no_try_format fmt_640x480_active idle_world) = 0 \<and>
   format (fst (snd (snd (mia1321_set_fmt good_kernel no_try_format fmt_640x480_active
       idle_world)))) =
     \<lparr>fmt_width = 1280, fmt_height = 1080, fmt_code = MEDIA_BUS_FMT_SGRBG10_1X10,
      fmt_field = V4L2_FIELD_NONE\<rparr> \<and>
   snd (snd (snd (mia1321_set_fmt good_kernel no_try_format fmt_640x480_active idle_world))) =
     idle_world\<lparr>trace := [V4l2_ctrl_modify_range Hblank_ctrl 1384 1384 1 1384,
                           V4l2_ctrl_modify_range Vblank_ctrl 120 64455 1 120]\<rparr> \<and>
   cur_mode (drv (snd (snd (snd (mia1321_set_fmt good_kernel no_try_format fmt_640x480_active
       idle_world))))) = supported_modes ! 0 \<and>
   which fmt_1280x1080_try = V4L2_SUBDEV_FORMAT_TRY \<and>
   fst (mia1321_set_fmt good_kernel no_try_format fmt_1280x1080_try idle_world) = 0 \<and>
   snd (snd (snd (mia1321_set_fmt good_kernel no_try_format fmt_1280x1080_try idle_world))) =
     idle_world"
proof -
  have d: "mia1321_get_reso_dist (supported_modes ! 0) (format fmt_640x480_active) \<noteq> - 1"
    by (simp add: supported_modes_def mia1321_get_reso_dist_def fmt_640x480_active_def
        abs_int_def)
  have a: "which fmt_640x480_active \<noteq> V4L2_SUBDEV_FORMAT_TRY"
    by (simp add: fmt_640x480_active_def V4L2_SUBDEV_FORMAT_TRY_def
        V4L2_SUBDEV_FORMAT_ACTIVE_def)
  have g: "modify_range_effect good_kernel = (\<lambda>w. w)"
    by (simp add: good_kernel_def id_def)
  then have c: "callbacks_keep_mode good_kernel"
    by (simp add: callbacks_keep_mode_def)
  have v: "uint (hts_def (supported_modes ! 0) - width (supported_modes ! 0)) = 1384"
    "uint (vts_def (supported_modes ! 0) - height (supported_modes ! 0)) = 120"
    "uint (MIA1321_VTS_MAX - height (supported_modes ! 0)) = 64455"
    "bus_fmt (supported_modes ! 0) = MEDIA_BUS_FMT_SGRBG10_1X10"
    "width (supported_modes ! 0) = 1280" "height (supported_modes ! 0) = 1080"
    "hts_def (supported_modes ! 0) = 0x0a68" "vts_def (supported_modes ! 0) = 0x04b0"
    by (simp_all add: supported_modes_def MIA1321_VTS_MAX_def)
  have s: "idle_world\<lparr>drv := (drv idle_world)\<lparr>cur_mode := supported_modes ! 0,
      cur_fps := max_fps (supported_modes ! 0)\<rparr>, trace := h\<rparr> = idle_world\<lparr>trace := h\<rparr>" for h
    by (simp add: idle_world_def idle_drv_def)
  have t: "trace idle_world = []"
    by (simp add: idle_world_def)
  have l: "(2 :: nat) < length supported_modes"
    by (simp add: supported_modes_def)
  note S = set_fmt_spec [of fmt_640x480_active good_kernel no_try_format idle_world]
  from S d have i: "find_best_fit_index fmt_640x480_active = 0"
    and m: "mia1321_find_best_fit fmt_640x480_active = supported_modes ! 0"
    by simp_all
  have mh: "manhattan (supported_modes ! 0) (format fmt_640x480_active)
     \<le> manhattan (supported_modes ! 2) (format fmt_640x480_active)"
    using S [THEN conjunct2, THEN conjunct1, THEN spec, THEN mp, OF l] by (simp add: m)
  from S a have r: "fst (mia1321_set_fmt good_kernel no_try_format fmt_640x480_active
      idle_world) = 0"
    by simp
  from S have f: "format (fst (snd (snd (mia1321_set_fmt good_kernel no_try_format
      fmt_640x480_active idle_world)))) =
     \<lparr>fmt_width = 1280, fmt_height = 1080, fmt_code = MEDIA_BUS_FMT_SGRBG10_1X10,
      fmt_field = V4L2_FIELD_NONE\<rparr>"
    by (simp add: m v)
  note S7 = S [THEN conjunct2, THEN conjunct2, THEN conjunct2, THEN conjunct2,
      THEN conjunct2, THEN conjunct2, THEN conjunct2]
  have w: "snd (snd (snd (mia1321_set_fmt good_kernel no_try_format
      fmt_640x480_active idle_world))) =
     idle_world\<lparr>trace := [V4l2_ctrl_modify_range Hblank_ctrl 1384 1384 1 1384,
                           V4l2_ctrl_modify_range Vblank_ctrl 120 64455 1 120]\<rparr>"
    using S7 [THEN conjunct1, THEN mp, OF conjI [OF a g]]
    by (simp add: Let_def m v s t MIA1321_VTS_MAX_def)
  have cm: "cur_mode (drv (snd (snd (snd (mia1321_set_fmt good_kernel
      no_try_format fmt_640x480_active idle_world))))) = supported_modes ! 0"
    using S7 [THEN conjunct2, THEN mp, OF conjI [OF a c]] by (simp add: m)
  have b: "which fmt_1280x1080_try = V4L2_SUBDEV_FORMAT_TRY"
    by (simp add: fmt_1280x1080_try_def)
  note R = set_fmt_spec [of fmt_1280x1080_try good_kernel no_try_format idle_world]
  from R b have y: "fst (mia1321_set_fmt good_kernel no_try_format fmt_1280x1080_try
      idle_world) = 0"
    by (simp add: good_kernel_def)
  from R b have z: "snd (snd (snd (mia1321_set_fmt good_kernel no_try_format
      fmt_1280x1080_try idle_world))) = idle_world"
    by simp
  show ?thesis
    using d i mh a g c r f w cm b y z by (intro conjI)
qed

subsection \<open>Frame size enumeration\<close>

text \<open>
  C7. \<open>mia1321_enum_frame_sizes\<close> returns \<open>-EINVAL\<close> exactly when the index is at least 3,
  the number of supported modes, or the media-bus code is not that of the first mode,
  \<open>MEDIA_BUS_FMT_SGRBG10_1X10\<close>. In every other case it returns 0 and reports the width and
  height of the indexed mode as both minimum and maximum. The code of the third mode,
  \<open>MEDIA_BUS_FMT_SGRBG12_1X12\<close>, is therefore always refused.
\<close>

theorem enum_frame_sizes_spec:
  "(fst (mia1321_enum_frame_sizes fse) = - EINVAL \<longleftrightarrow>
      3 \<le> unat (fse_index fse) \<or> fse_code fse \<noteq> MEDIA_BUS_FMT_SGRBG10_1X10) \<and>
   (fst (mia1321_enum_frame_sizes fse) \<noteq> - EINVAL \<longrightarrow>
      mia1321_enum_frame_sizes fse =
        (0, fse\<lparr>min_width := width (supported_modes ! unat (fse_index fse)),
                 max_width := width (supported_modes ! unat (fse_index fse)),
                 min_height := height (supported_modes ! unat (fse_index fse)),
                 max_height := height (supported_modes ! unat (fse_index fse))\<rparr>)) \<and>
   (fse_code fse = bus_fmt (supported_modes ! 2) \<longrightarrow>
      fst (mia1321_enum_frame_sizes fse) = - EINVAL) \<and>
   bus_fmt (supported_modes ! 2) = MEDIA_BUS_FMT_SGRBG12_1X12 \<and>
   length supported_modes = 3"
  by (simp add: mia1321_enum_frame_sizes_def supported_modes_def EINVAL_def
      MEDIA_BUS_FMT_SGRBG10_1X10_def MEDIA_BUS_FMT_SGRBG12_1X12_def)

theorem enum_frame_sizes_spec_witness:
  "fst (mia1321_enum_frame_sizes fse_third_mode) \<noteq> - EINVAL \<and>
   mia1321_enum_frame_sizes fse_third_mode =
     (0, fse_third_mode\<lparr>min_width := 1280, max_width := 1280,
                         min_height := 1080, max_height := 1080\<rparr>) \<and>
   fst (mia1321_enum_frame_sizes (fse_third_mode\<lparr>fse_code := MEDIA_BUS_FMT_SGRBG12_1X12\<rparr>))
     = - EINVAL"
  using enum_frame_sizes_spec [of fse_third_mode]
    enum_frame_sizes_spec [of "fse_third_mode\<lparr>fse_code := MEDIA_BUS_FMT_SGRBG12_1X12\<rparr>"]
  by (simp add: fse_third_mode_def supported_modes_def EINVAL_def
      MEDIA_BUS_FMT_SGRBG10_1X10_def MEDIA_BUS_FMT_SGRBG12_1X12_def)

subsection \<open>HDR modes\<close>

lemma set_hdr_cfg_loop_none:
  "\<forall>m\<in>set ms. hdr_mode m \<noteq> hdr \<Longrightarrow> set_hdr_cfg_loop w h hdr ms i = (i + length ms, None)"
  by (induction ms arbitrary: i) auto

lemma set_hdr_cfg_loop_found:
  "set_hdr_cfg_loop w h hdr ms i = (j, Some m) \<Longrightarrow> m \<in> set ms"
  by (induction ms arbitrary: i) (auto split: if_splits)

text \<open>
  C8. Every entry of \<open>supported_modes\<close> has \<open>hdr_mode\<close> \<open>NO_HDR\<close>. Hence, with the
  current mode one of them, \<open>mia1321_g_mbus_config\<close> returns 0 and reports exactly the
  2-lane bit, channel 0 and the continuous clock: the channel-1 and channel-2 flags are
  never set. And \<open>RKMODULE_SET_HDR_CFG\<close> with any \<open>hdr_mode\<close> other than \<open>NO_HDR\<close> returns
  \<open>-EINVAL\<close> and changes nothing, the current mode included.
\<close>

theorem hdr_modes_spec:
  "(\<forall>m\<in>set supported_modes. hdr_mode m = NO_HDR) \<and>
   (cur_mode d \<in> set supported_modes \<longrightarrow>
      mia1321_g_mbus_config d config =
        (0, config\<lparr>mbus_type := V4L2_MBUS_CSI2_DPHY,
                    flags := (push_bit 1 1 OR V4L2_MBUS_CSI2_CHANNEL_0)
                               OR V4L2_MBUS_CSI2_CONTINUOUS_CLOCK\<rparr>) \<and>
      flags (snd (mia1321_g_mbus_config d config)) AND V4L2_MBUS_CSI2_CHANNEL_1 = 0 \<and>
      flags (snd (mia1321_g_mbus_config d config)) AND V4L2_MBUS_CSI2_CHANNEL_2 = 0) \<and>
   (cfg_hdr_mode hdr \<noteq> NO_HDR \<longrightarrow>
      mia1321_ioctl K (RKMODULE_SET_HDR_CFG hdr) w = (- EINVAL, RKMODULE_SET_HDR_CFG hdr, w))"
proof (intro conjI impI ballI)
  fix m assume "m \<in> set supported_modes"
  then show "hdr_mode m = NO_HDR" by (rule supported_modes_hdr)
next
  assume "cur_mode d \<in> set supported_modes"
  then have h: "hdr_mode (cur_mode d) = NO_HDR" by (rule supported_modes_hdr)
  show g: "mia1321_g_mbus_config d config =
        (0, config\<lparr>mbus_type := V4L2_MBUS_CSI2_DPHY,
                    flags := (push_bit 1 1 OR V4L2_MBUS_CSI2_CHANNEL_0)
                               OR V4L2_MBUS_CSI2_CONTINUOUS_CLOCK\<rparr>)"
    by (simp add: mia1321_g_mbus_config_def h NO_HDR_def HDR_X3_def MIA1321_LANES_def)
  show "flags (snd (mia1321_g_mbus_config d config)) AND V4L2_MBUS_CSI2_CHANNEL_1 = 0"
    by (simp add: g V4L2_MBUS_CSI2_CHANNEL_0_def V4L2_MBUS_CSI2_CHANNEL_1_def
        V4L2_MBUS_CSI2_CONTINUOUS_CLOCK_def)
  show "flags (snd (mia1321_g_mbus_config d config)) AND V4L2_MBUS_CSI2_CHANNEL_2 = 0"
    by (simp add: g V4L2_MBUS_CSI2_CHANNEL_0_def V4L2_MBUS_CSI2_CHANNEL_2_def
        V4L2_MBUS_CSI2_CONTINUOUS_CLOCK_def)
next
  assume "cfg_hdr_mode hdr \<noteq> NO_HDR"
  then have "\<forall>m\<in>set supported_modes. hdr_mode m \<noteq> cfg_hdr_mode hdr"
    by (auto dest: supported_modes_hdr)
  then have "set_hdr_cfg_loop (width (cur_mode (drv w))) (height (cur_mode (drv w)))
      (cfg_hdr_mode hdr) supported_modes 0 = (length supported_modes, None)"
    by (simp add: set_hdr_cfg_loop_none)
  then show "mia1321_ioctl K (RKMODULE_SET_HDR_CFG hdr) w =
      (- EINVAL, RKMODULE_SET_HDR_CFG hdr, w)"
    by (simp add: mia1321_ioctl_def)
qed

theorem hdr_modes_spec_witness:
  "cur_mode idle_drv \<in> set supported_modes \<and>
   mia1321_g_mbus_config idle_drv blank_config =
     (0, \<lparr>mbus_type = V4L2_MBUS_CSI2_DPHY, flags = 0x112\<rparr>) \<and>
   cfg_hdr_mode hdr_x2_request \<noteq> NO_HDR \<and>
   mia1321_ioctl good_kernel (RKMODULE_SET_HDR_CFG hdr_x2_request) idle_world =
     (- EINVAL, RKMODULE_SET_HDR_CFG hdr_x2_request, idle_world)"
proof -
  have a: "cur_mode idle_drv \<in> set supported_modes"
    by (simp add: idle_drv_def supported_modes_def)
  have b: "cfg_hdr_mode hdr_x2_request \<noteq> NO_HDR"
    by (simp add: hdr_x2_request_def HDR_X2_def NO_HDR_def)
  show ?thesis
    using a b hdr_modes_spec [of idle_drv blank_config hdr_x2_request good_kernel idle_world]
    by (simp add: blank_config_def V4L2_MBUS_CSI2_CHANNEL_0_def
        V4L2_MBUS_CSI2_CONTINUOUS_CLOCK_def)
qed

text \<open>
  The current mode stays an entry of \<open>supported_modes\<close>: \<open>mia1321_set_fmt\<close> and
  \<open>mia1321_ioctl\<close>, the two functions modelled here that assign it, keep it so, and
  \<open>mia1321_set_ctrl\<close>, which the control framework calls back, leaves it as it is. What
  the framework does inside \<open>__v4l2_ctrl_modify_range\<close> is a parameter of the model; it is
  taken to leave the current mode alone, as calls of \<open>mia1321_set_ctrl\<close> do.
\<close>

lemma write_reg_drv: "drv (snd (mia1321_write_reg K reg len v w)) = drv w"
  by (simp add: mia1321_write_reg_def call_def emit_def Let_def split_beta)

lemma read_reg_drv: "drv (snd (snd (mia1321_read_reg K reg len v w))) = drv w"
  by (simp add: mia1321_read_reg_def call_def emit_def Let_def split_beta)

lemma set_gain_reg_drv: "drv (snd (mia1321_set_gain_reg K gain w)) = drv w"
  by (simp add: mia1321_set_gain_reg_def Let_def split_beta write_reg_drv)

lemma set_orientation_reg_mode:
  "cur_mode (drv (mia1321_set_orientation_reg K v w)) = cur_mode (drv w)"
  by (simp add: mia1321_set_orientation_reg_def orientation_case_def Let_def split_beta
      write_reg_drv)

lemma set_ctrl_cur_mode:
  assumes "callbacks_keep_mode K"
  shows "cur_mode (drv (snd (mia1321_set_ctrl K ctrl w))) = cur_mode (drv w)"
proof -
  have e: "cur_mode (drv (v4l2_ctrl_modify_range K c a b s d w')) = cur_mode (drv w')"
    for c a b s d w'
    using assms by (simp add: v4l2_ctrl_modify_range_def callbacks_keep_mode_def emit_def)
  show ?thesis
    by (cases "ctrl_id ctrl")
      (simp_all add: mia1321_set_ctrl_def call_def emit_def Let_def split_beta e write_reg_drv
        read_reg_drv set_gain_reg_drv set_orientation_reg_mode
        mia1321_enable_test_pattern_def)
qed

lemma set_fmt_cur_mode_supported:
  "callbacks_keep_mode K \<Longrightarrow> cur_mode (drv w) \<in> set supported_modes \<Longrightarrow>
   cur_mode (drv (snd (snd (snd (mia1321_set_fmt K cfg fmt w))))) \<in> set supported_modes"
  by (simp add: mia1321_set_fmt_def Let_def v4l2_ctrl_modify_range_def emit_def
      callbacks_keep_mode_def find_best_fit_supported)

lemma ioctl_cur_mode_supported:
  "callbacks_keep_mode K \<Longrightarrow> cur_mode (drv w) \<in> set supported_modes \<Longrightarrow>
   cur_mode (drv (snd (snd (mia1321_ioctl K arg w)))) \<in> set supported_modes"
  by (cases arg)
    (auto simp: mia1321_ioctl_def Let_def v4l2_ctrl_modify_range_def emit_def
      callbacks_keep_mode_def mia1321_write_reg_def call_def
      split: prod.splits option.splits dest: set_hdr_cfg_loop_found)
subsection \<open>Power-up sequence\<close>

lemma cal_delay_8192: "mia1321_cal_delay 8192 = 316"
  by (simp add: mia1321_cal_delay_def DIV_ROUND_UP_def MIA1321_XVCLK_FREQ_def)

lemma num_supplies: "MIA1321_NUM_SUPPLIES = 3"
  by (simp add: MIA1321_NUM_SUPPLIES_def mia1321_supply_names_def)

lemma configure_regulators_supplies:
  "supplies (drv (snd (mia1321_configure_regulators K w))) = [''avdd'', ''dovdd'', ''dvdd'']"
  by (simp add: mia1321_configure_regulators_def call_def emit_def Let_def
      MIA1321_NUM_SUPPLIES_def mia1321_supply_names_def)

text \<open>
  C9, as amended. In the non-thunderboot path \<open>__mia1321_power_on\<close> does, in this order:
  select the default pins if there is a default pin state; set the rate of xvclk to 26
  MHz, read it back and enable the clock, returning the error at once if that fails;
  drive reset low if there is a reset GPIO; enable the three regulators the driver
  configured; drive reset high if there is a reset GPIO; sleep 500 microseconds; raise
  pwdn if there is a pwdn GPIO; sleep 6000 microseconds, or 12000 without a reset GPIO;
  sleep at least 316 microseconds, which at 26 cycles a microsecond is no less than 8192
  cycles of xvclk; return 0. If enabling the regulators fails, the clock is disabled again
  and the regulator error is returned.
\<close>

theorem power_on_sequence:
  assumes "\<not> is_thunderboot (drv w)"
  shows "(clk_enable_ret K w < 0 \<longrightarrow>
            mia1321_power_on K w =
              (clk_enable_ret K w, w\<lparr>trace := trace w @ pins_step (drv w) @ clock_steps\<rparr>)) \<and>
         (0 \<le> clk_enable_ret K w \<and> regulator_ret K w < 0 \<longrightarrow>
            mia1321_power_on K w =
              (regulator_ret K w,
               w\<lparr>trace := trace w @ pins_step (drv w) @ clock_steps @ reset_step (drv w) 0 @
                              [regulator_step (drv w), Clk_disable_unprepare]\<rparr>)) \<and>
         (0 \<le> clk_enable_ret K w \<and> 0 \<le> regulator_ret K w \<longrightarrow>
            mia1321_power_on K w =
              (0, w\<lparr>trace := trace w @ pins_step (drv w) @ clock_steps @ reset_step (drv w) 0 @
                               [regulator_step (drv w)] @ reset_step (drv w) 1 @
                               [Usleep_range 500 1000] @ pwdn_step (drv w) @
                               [settle_step (drv w), Usleep_range 316 632]\<rparr>)) \<and>
         8192 \<le> 316 * (MIA1321_XVCLK_FREQ div 1000000)"
  using assms
  by (cases "pins_default_valid (drv w)"; cases "reset_gpio_valid (drv w)";
      cases "pwdn_gpio_valid (drv w)")
    (simp_all add: mia1321_power_on_def call_def emit_def Let_def cal_delay_8192
      pins_step_def clock_steps_def reset_step_def regulator_step_def pwdn_step_def
      settle_step_def clk_enable_ret_def regulator_ret_def MIA1321_XVCLK_FREQ_def
      num_supplies)

text \<open>
  The claim as stated lists the reset line among the steps in every run; on a board
  without a reset GPIO the sequence has no such step.
\<close>

theorem power_on_without_reset_gpio:
  "mia1321_power_on good_kernel no_reset_world =
     (0, no_reset_world\<lparr>trace := [Pinctrl_select_state Pins_default, Clk_set_rate 26000000,
        Clk_get_rate, Clk_prepare_enable,
        Regulator_bulk_enable 3 [''avdd'', ''dovdd'', ''dvdd''], Usleep_range 500 1000,
        Gpiod_set_value_cansleep Pwdn_gpio 1, Usleep_range 12000 16000,
        Usleep_range 316 632]\<rparr>)"
  by (simp add: mia1321_power_on_def call_def emit_def Let_def cal_delay_8192
      no_reset_world_def idle_world_def idle_drv_def good_kernel_def num_supplies
      mia1321_supply_names_def MIA1321_XVCLK_FREQ_def)

theorem power_on_sequence_witness:
  "\<not> is_thunderboot (drv idle_world) \<and>
   0 \<le> clk_enable_ret good_kernel idle_world \<and>
   0 \<le> regulator_ret good_kernel idle_world \<and>
   mia1321_power_on good_kernel idle_world =
     (0, idle_world\<lparr>trace := [Pinctrl_select_state Pins_default, Clk_set_rate 26000000,
        Clk_get_rate, Clk_prepare_enable, Gpiod_set_value_cansleep Reset_gpio 0,
        Regulator_bulk_enable 3 [''avdd'', ''dovdd'', ''dvdd''],
        Gpiod_set_value_cansleep Reset_gpio 1, Usleep_range 500 1000,
        Gpiod_set_value_cansleep Pwdn_gpio 1, Usleep_range 6000 8000,
        Usleep_range 316 632]\<rparr>) \<and>
   0 \<le> clk_enable_ret no_power_kernel idle_world \<and>
   regulator_ret no_power_kernel idle_world < 0 \<and>
   mia1321_power_on no_power_kernel idle_world =
     (- 5, idle_world\<lparr>trace := [Pinctrl_select_state Pins_default, Clk_set_rate 26000000,
        Clk_get_rate, Clk_prepare_enable, Gpiod_set_value_cansleep Reset_gpio 0,
        Regulator_bulk_enable 3 [''avdd'', ''dovdd'', ''dvdd''], Clk_disable_unprepare]\<rparr>)"
proof -
  have a: "\<not> is_thunderboot (drv idle_world)"
    by (simp add: idle_world_def idle_drv_def)
  have b: "0 \<le> clk_enable_ret good_kernel idle_world"
    "0 \<le> regulator_ret good_kernel idle_world"
    "0 \<le> clk_enable_ret no_power_kernel idle_world"
    "regulator_ret no_power_kernel idle_world < 0"
    "regulator_ret no_power_kernel idle_world = - 5"
    by (simp_all add: clk_enable_ret_def regulator_ret_def regulator_step_def
        no_power_kernel_def good_kernel_def)
  have steps: "pins_step (drv idle_world) = [Pinctrl_select_state Pins_default]"
    "reset_step (drv idle_world) 0 = [Gpiod_set_value_cansleep Reset_gpio 0]"
    "reset_step (drv idle_world) 1 = [Gpiod_set_value_cansleep Reset_gpio 1]"
    "pwdn_step (drv idle_world) = [Gpiod_set_value_cansleep Pwdn_gpio 1]"
    "settle_step (drv idle_world) = Usleep_range 6000 8000"
    "regulator_step (drv idle_world) = Regulator_bulk_enable 3 [''avdd'', ''dovdd'', ''dvdd'']"
    "trace idle_world = []"
    by (simp_all add: idle_world_def idle_drv_def pins_step_def reset_step_def pwdn_step_def
        settle_step_def regulator_step_def mia1321_supply_names_def)
  have r1: "mia1321_power_on good_kernel idle_world =
     (0, idle_world\<lparr>trace := [Pinctrl_select_state Pins_default, Clk_set_rate 26000000,
        Clk_get_rate, Clk_prepare_enable, Gpiod_set_value_cansleep Reset_gpio 0,
        Regulator_bulk_enable 3 [''avdd'', ''dovdd'', ''dvdd''],
        Gpiod_set_value_cansleep Reset_gpio 1, Usleep_range 500 1000,
        Gpiod_set_value_cansleep Pwdn_gpio 1, Usleep_range 6000 8000,
        Usleep_range 316 632]\<rparr>)"
    using power_on_sequence [OF a, of good_kernel, THEN conjunct2, THEN conjunct2,
        THEN conjunct1, THEN mp, OF conjI [OF b(1) b(2)]]
    by (simp only: steps clock_steps_def append.simps)
  have r2: "mia1321_power_on no_power_kernel idle_world =
     (- 5, idle_world\<lparr>trace := [Pinctrl_select_state Pins_default, Clk_set_rate 26000000,
        Clk_get_rate, Clk_prepare_enable, Gpiod_set_value_cansleep Reset_gpio 0,
        Regulator_bulk_enable 3 [''avdd'', ''dovdd'', ''dvdd''], Clk_disable_unprepare]\<rparr>)"
    using power_on_sequence [OF a, of no_power_kernel, THEN conjunct2, THEN conjunct1,
        THEN mp, OF conjI [OF b(3) b(4)]]
    by (simp only: steps clock_steps_def append.simps b(5))
  show ?thesis
    using a b(1-4) r1 r2 by (intro conjI)
qed

subsection \<open>Stream start\<close>

lemma stream_on_writes:
  "trace (snd (mia1321_write_reg K MIA1321_MIRROR_REG MIA1321_REG_VALUE_08BIT 0x01
     (snd (mia1321_write_reg K MIA1321_FLIP_REG MIA1321_REG_VALUE_08BIT 0x01
       (snd (mia1321_write_reg K MIA1321_REG_CTRL_MODE MIA1321_REG_VALUE_08BIT
               MIA1321_MODE_STREAMING w)))))) = trace w @ stream_on_tail"
  by (simp add: write_reg_08bit_trace emit_def stream_on_tail_def MIA1321_MIRROR_REG_def
      MIA1321_FLIP_REG_def MIA1321_REG_CTRL_MODE_def MIA1321_MODE_STREAMING_def)

text \<open>
  C10. Whenever \<open>__mia1321_start_stream\<close> returns 0, the last three things it did are
  the write of \<open>MIA1321_MODE_STREAMING\<close> to the mode register \<open>0x0126\<close>, the write of 1
  to the flip register \<open>0x0099\<close> and the write of 1 to the mirror register \<open>0x009a\<close>, in
  this order, whatever the driver state and whatever the control callbacks did before.
\<close>

theorem start_stream_ends_with_flip_mirror:
  assumes "fst (mia1321_start_stream K w) = Some 0"
  shows "\<exists>h. trace (snd (mia1321_start_stream K w)) = h @ stream_on_tail"
proof (cases "is_thunderboot (drv w)")
  case True
  then have "trace (snd (mia1321_start_stream K w)) = trace w @ stream_on_tail"
    by (simp add: mia1321_start_stream_def split_beta Let_def stream_on_writes)
  then show ?thesis by blast
next
  case False
  obtain r1 w1 where wa: "mia1321_write_array K (reg_list (cur_mode (drv w))) w = (r1, w1)"
    by (cases "mia1321_write_array K (reg_list (cur_mode (drv w))) w")
  obtain r2 w2 where hs: "v4l2_ctrl_handler_setup K w1 = (r2, w2)"
    by (cases "v4l2_ctrl_handler_setup K w1")
  from assms False wa hs have r1: "r1 = Some 0" and r2: "r2 = 0"
    by (auto simp: mia1321_start_stream_def split_beta Let_def split: option.splits if_splits)
  from False wa hs r1 r2
  have "trace (snd (mia1321_start_stream K w)) = trace w2 @ stream_on_tail"
    by (simp add: mia1321_start_stream_def split_beta Let_def stream_on_writes)
  then show ?thesis by blast
qed

theorem start_stream_ends_with_flip_mirror_witness:
  "fst (mia1321_start_stream good_kernel idle_world) = Some 0 \<and>
   drop 82 (trace (snd (mia1321_start_stream good_kernel idle_world))) = stream_on_tail \<and>
   fst (mia1321_start_stream good_kernel thunder_world) = Some 0 \<and>
   trace (snd (mia1321_start_stream good_kernel thunder_world)) = stream_on_tail"
proof -
  have a: "fst (mia1321_start_stream good_kernel idle_world) = Some 0"
    by code_simp
  have b: "fst (mia1321_start_stream good_kernel thunder_world) = Some 0"
    by code_simp
  have c: "length (trace (snd (mia1321_start_stream good_kernel idle_world))) = 85"
    by code_simp
  have d: "length (trace (snd (mia1321_start_stream good_kernel thunder_world))) = 3"
    by code_simp
  have l: "length stream_on_tail = 3"
    by (simp add: stream_on_tail_def)
  from start_stream_ends_with_flip_mirror [OF a] c l
  have "drop 82 (trace (snd (mia1321_start_stream good_kernel idle_world))) = stream_on_tail"
    by auto
  moreover from start_stream_ends_with_flip_mirror [OF b] d l
  have "trace (snd (mia1321_start_stream good_kernel thunder_world)) = stream_on_tail"
    by auto
  ultimately show ?thesis using a b by simp
qed

end
